theory Spec2Isabelle
  imports Main
begin

section \<open>App lifecycle counters (sandbox/src/patchers/dynamicAppend/common.ts)\<close>

text \<open>
  \<^verbatim>\<open>appsCounterMap\<close> is a JavaScript \<^verbatim>\<open>Map\<close> from app names to a pair of
  counters. A \<^verbatim>\<open>Map\<close> keeps its entries in insertion order and \<^verbatim>\<open>set\<close> on a
  key that is present replaces the value in place, so the map is an association list
  updated by \<open>map_set\<close>. The counters are JavaScript numbers that only ever hold
  integers reached from 0 in steps of one; they are modelled as \<open>int\<close>, which is
  exact for every count below \<open>2 ^ 53\<close>.
\<close>

record app_count =
  bootstrappingPatchCount :: int
  mountingPatchCount :: int

datatype calc_type = Increase | Decrease

datatype status = Bootstrapping | Mounting

type_synonym apps_counter_map = "(string \<times> app_count) list"

text \<open>\<^verbatim>\<open>new Map()\<close>: the registry when the module is loaded.\<close>

definition appsCounterMap_initial :: apps_counter_map where
  "appsCounterMap_initial = []"

text \<open>\<^verbatim>\<open>map.get(key)\<close>, \<open>None\<close> for \<^verbatim>\<open>undefined\<close>.\<close>

fun map_get :: "('k \<times> 'v) list \<Rightarrow> 'k \<Rightarrow> 'v option" where
  "map_get [] k = None"
| "map_get ((k', v) # kvs) k = (if k' = k then Some v else map_get kvs k)"

text \<open>\<^verbatim>\<open>map.set(key, value)\<close>.\<close>

fun map_set :: "('k \<times> 'v) list \<Rightarrow> 'k \<Rightarrow> 'v \<Rightarrow> ('k \<times> 'v) list" where
  "map_set [] k v = [(k, v)]"
| "map_set ((k', v') # kvs) k v =
     (if k' = k then (k, v) # kvs else (k', v') # map_set kvs k v)"

text \<open>\<^verbatim>\<open>appCount[`${status}PatchCount`]\<close>, read and written.\<close>

fun patch_count :: "status \<Rightarrow> app_count \<Rightarrow> int" where
  "patch_count Bootstrapping c = bootstrappingPatchCount c"
| "patch_count Mounting c = mountingPatchCount c"

fun patch_count_update :: "status \<Rightarrow> int \<Rightarrow> app_count \<Rightarrow> app_count" where
  "patch_count_update Bootstrapping n c = c\<lparr>bootstrappingPatchCount := n\<rparr>"
| "patch_count_update Mounting n c = c\<lparr>mountingPatchCount := n\<rparr>"

definition calcAppCount ::
  "string \<Rightarrow> calc_type \<Rightarrow> status \<Rightarrow> apps_counter_map \<Rightarrow> apps_counter_map" where
  "calcAppCount appName calcType st m =
     (let appCount =
            (case map_get m appName of
               Some c \<Rightarrow> c
             | None \<Rightarrow> \<lparr>bootstrappingPatchCount = 0, mountingPatchCount = 0\<rparr>);
          appCount' =
            (case calcType of
               Increase \<Rightarrow> patch_count_update st (patch_count st appCount + 1) appCount
             | Decrease \<Rightarrow>
                 if patch_count st appCount > 0
                 then patch_count_update st (patch_count st appCount - 1) appCount
                 else appCount)
      in map_set m appName appCount')"

definition isAllAppsUnmounted :: "apps_counter_map \<Rightarrow> bool" where
  "isAllAppsUnmounted m =
     list_all (\<lambda>(appName, c). bootstrappingPatchCount c = 0 \<and> mountingPatchCount c = 0) m"

text \<open>A sequence of \<^verbatim>\<open>calcAppCount\<close> calls, run in order on the registry.\<close>

type_synonym calc_call = "string \<times> calc_type \<times> status"

fun calcAppCount_calls :: "calc_call list \<Rightarrow> apps_counter_map \<Rightarrow> apps_counter_map" where
  "calcAppCount_calls [] m = m"
| "calcAppCount_calls ((appName, calcType, st) # calls) m =
     calcAppCount_calls calls (calcAppCount appName calcType st m)"

text \<open>
  The value of one counter as the code reads it: the counter of an app that has no entry
  yet is the 0 of the default record.
\<close>

definition counter_of :: "apps_counter_map \<Rightarrow> string \<Rightarrow> status \<Rightarrow> int" where
  "counter_of m appName st =
     (case map_get m appName of Some c \<Rightarrow> patch_count st c | None \<Rightarrow> 0)"

section \<open>Script transform pipeline (shared/src/assets-transpilers/script.ts)\<close>

text \<open>
  DOM nodes are objects with identity: a node is its address, and what the code reads
  and writes on a node lives in a store indexed by it. A script element carries the
  \<^verbatim>\<open>src\<close> content attribute (\<open>None\<close> when \<^verbatim>\<open>getAttribute('src')\<close> is
  \<^verbatim>\<open>null\<close>), \<^verbatim>\<open>dataset.src\<close>, the reflected \<^verbatim>\<open>type\<close> (the empty string when
  no type is declared), its text content, and whether it is attached to the document.
\<close>

type_synonym node = nat

record script_element =
  src_attribute :: "string option"
  dataset_src :: "string option"
  script_type :: string
  script_textContent :: string
  isConnected :: bool

text \<open>
  The sandbox is an external collaborator: the pipeline only calls its
  \<^verbatim>\<open>makeEvaluateFactory(code, url)\<close>, which returns the wrapped source.
\<close>

record sandbox_handle =
  makeEvaluateFactory :: "string \<Rightarrow> string \<Rightarrow> string"

text \<open>\<^verbatim>\<open>TransformerOpts\<close>; the \<^verbatim>\<open>fetch\<close> of the options is the page's queue of
  requests in flight.\<close>

record transformer_opts =
  opts_sandbox :: "sandbox_handle option"

text \<open>
  A request in flight, with what the continuation of
  \<^verbatim>\<open>fetch(scriptSrc).then((res) => res.text()).then((code) => ...)\<close> has captured:
  the script node, \<^verbatim>\<open>scriptSrc\<close> and the sandbox.
\<close>

record fetch_job =
  job_script :: node
  job_scriptSrc :: string
  job_sandbox :: sandbox_handle

text \<open>
  The part of the page the pipeline touches: the script elements, the requests in flight
  and the browser's store of object URLs (each URL with the text of its blob). Nothing in
  the pipeline calls \<^verbatim>\<open>URL.revokeObjectURL\<close>, so entries are only ever added.
\<close>

record page =
  scripts :: "node \<Rightarrow> script_element"
  pending_fetches :: "fetch_job list"
  objectURLs :: "(string \<times> string) list"

definition handleTypes :: "string list" where
  "handleTypes =
     [''text/javascript'', ''module'', ''application/javascript'',
      ''text/ecmascript'', ''application/ecmascript'']"

text \<open>\<^verbatim>\<open>!type || handleTypes.indexOf(type) !== -1\<close>; \<open>None\<close> is \<^verbatim>\<open>undefined\<close>.\<close>

definition isValidJavaScriptType :: "string option \<Rightarrow> bool" where
  "isValidJavaScriptType ty =
     (case ty of None \<Rightarrow> True | Some t \<Rightarrow> t = [] \<or> t \<in> set handleTypes)"

text \<open>Truthiness of a value that is a string or \<^verbatim>\<open>null\<close>: present and not empty.\<close>

definition truthy :: "string option \<Rightarrow> bool" where
  "truthy v = (case v of None \<Rightarrow> False | Some t \<Rightarrow> t \<noteq> [])"

text \<open>
  \<^verbatim>\<open>getEntireUrl\<close> is imported from \<^verbatim>\<open>../utils\<close>, which is not among the sources:
  it is a parameter of the model.
\<close>

definition transpileScript ::
  "(string \<Rightarrow> string \<Rightarrow> string) \<Rightarrow> node \<Rightarrow> string \<Rightarrow> transformer_opts \<Rightarrow> page \<Rightarrow> page" where
  "transpileScript getEntireUrl script baseURI opts p =
     (let el = scripts p script;
          srcAttribute = src_attribute el
      in case opts_sandbox opts of
           Some sandbox \<Rightarrow>
             if truthy srcAttribute then
               (let scriptSrc = getEntireUrl (the srcAttribute) baseURI;
                    el' = el\<lparr>src_attribute := None, dataset_src := Some scriptSrc\<rparr>
                in p\<lparr>scripts := (scripts p)(script := el'),
                     pending_fetches := pending_fetches p @
                       [\<lparr>job_script = script, job_scriptSrc = scriptSrc,
                         job_sandbox = sandbox\<rparr>]\<rparr>)
             else if isValidJavaScriptType (Some (script_type el)) then
               (let code = script_textContent el
                in if code \<noteq> [] then
                     p\<lparr>scripts := (scripts p)
                         (script := el\<lparr>script_textContent :=
                            makeEvaluateFactory sandbox code baseURI\<rparr>)\<rparr>
                   else p)
             else p
         | None \<Rightarrow>
             if truthy srcAttribute then
               p\<lparr>scripts := (scripts p)
                   (script := el\<lparr>src_attribute :=
                      Some (getEntireUrl (the srcAttribute) baseURI)\<rparr>)\<rparr>
             else p)"

text \<open>
  \<^verbatim>\<open>URL.createObjectURL(new Blob([text], ...))\<close>: the browser mints a URL that no
  earlier blob has and registers the blob under it.
\<close>

definition createObjectURL :: "string \<Rightarrow> page \<Rightarrow> string \<times> page" where
  "createObjectURL blob p =
     (let url = ''blob:'' @ replicate (length (objectURLs p)) (CHR ''1'')
      in (url, p\<lparr>objectURLs := (url, blob) # objectURLs p\<rparr>))"

text \<open>The last \<^verbatim>\<open>then\<close> callback of \<^verbatim>\<open>transpileScript\<close>, run with the fetched text.\<close>

definition fetch_continuation :: "fetch_job \<Rightarrow> string \<Rightarrow> page \<Rightarrow> page" where
  "fetch_continuation job code p =
     (let codeFactory = makeEvaluateFactory (job_sandbox job) code (job_scriptSrc job);
          (url, p1) = createObjectURL codeFactory p
      in p1\<lparr>scripts := (scripts p1)
            (job_script job := (scripts p1 (job_script job))\<lparr>src_attribute := Some url\<rparr>)\<rparr>)"

text \<open>
  A promise settles once: settling request \<open>i\<close> takes it out of the queue; when the
  response text arrives the continuation runs, and a rejection runs nothing.
\<close>

datatype fetch_result = ResponseText string | Rejected

definition settle_fetch :: "nat \<Rightarrow> fetch_result \<Rightarrow> page \<Rightarrow> page" where
  "settle_fetch i r p =
     (if i < length (pending_fetches p) then
        (let job = pending_fetches p ! i;
             p1 = p\<lparr>pending_fetches :=
                      take i (pending_fetches p) @ drop (Suc i) (pending_fetches p)\<rparr>
         in case r of
              ResponseText code \<Rightarrow> fetch_continuation job code p1
            | Rejected \<Rightarrow> p1)
      else p)"

text \<open>
  What can happen on later turns of the event loop: a request settles, or a node leaves
  the document (its container is removed when the app unmounts).
\<close>

datatype page_event = FetchSettles nat fetch_result | LeavesDocument node

fun page_step :: "page_event \<Rightarrow> page \<Rightarrow> page" where
  "page_step (FetchSettles i r) p = settle_fetch i r p"
| "page_step (LeavesDocument n) p =
     p\<lparr>scripts := (scripts p)(n := (scripts p n)\<lparr>isConnected := False\<rparr>)\<rparr>"

fun page_run :: "page_event list \<Rightarrow> page \<Rightarrow> page" where
  "page_run [] p = p"
| "page_run (e # es) p = page_run es (page_step e p)"

text \<open>Example collaborators, used to run the pipeline on concrete pages.\<close>

definition example_getEntireUrl :: "string \<Rightarrow> string \<Rightarrow> string" where
  "example_getEntireUrl uri baseURI =
     (if take 2 uri = ''./'' then baseURI @ drop 2 uri else baseURI @ uri)"

definition example_sandbox :: sandbox_handle where
  "example_sandbox =
     \<lparr>makeEvaluateFactory = (\<lambda>code url. ''(function(window){'' @ code @ ''})(proxy)'')\<rparr>"

definition example_script :: script_element where
  "example_script =
     \<lparr>src_attribute = Some ''./a.js'', dataset_src = None, script_type = [],
      script_textContent = [], isConnected = True\<rparr>"

definition example_data_script :: script_element where
  "example_data_script =
     \<lparr>src_attribute = Some ''./data.json'', dataset_src = None,
      script_type = ''application/json'', script_textContent = [], isConnected = True\<rparr>"

definition example_data_island :: script_element where
  "example_data_island =
     \<lparr>src_attribute = None, dataset_src = None,
      script_type = ''application/json'', script_textContent = ''{}'', isConnected = True\<rparr>"

definition example_page :: "script_element \<Rightarrow> page" where
  "example_page el = \<lparr>scripts = (\<lambda>n. el), pending_fetches = [], objectURLs = []\<rparr>"

section \<open>Stylesheet rule preservation (sandbox/src/patchers/dynamicAppend/common.ts)\<close>

text \<open>Errors a JavaScript call can throw, as values.\<close>

datatype exn =
    TypeError | NotFoundError | HierarchyRequestError | IndexSizeError | SyntaxError
  | InvalidStateError | Thrown string

text \<open>
  A \<^verbatim>\<open>CSSRuleList\<close> is a live object: \<^verbatim>\<open>styledComponentCSSRulesMap\<close> stores a
  reference to it, not a copy, and \<^verbatim>\<open>insertRule\<close> changes the list every holder of
  the reference sees. Rule lists therefore live in a store indexed by reference. A style
  sheet is identified with its one rule list; the \<^verbatim>\<open>sheet\<close> of an element is
  \<open>None\<close> while the element has no associated style sheet (the browser drops the sheet
  when the element leaves the document and makes a new one when it is attached again).
  Of a rule the code reads the \<^verbatim>\<open>cssText\<close>; the browser's \<^verbatim>\<open>insertRule\<close> also
  looks at what kind of rule it is, since \<^verbatim>\<open>@import\<close> rules must stand before
  \<^verbatim>\<open>@namespace\<close> rules and both before every other rule.
\<close>

type_synonym rule_list_ref = nat

datatype rule_kind = ImportRule | NamespaceRule | OtherRule

record css_rule =
  cssText :: string
  ruleKind :: rule_kind

record style_element =
  isHTMLStyleElement :: bool
  style_textContent :: string
  sheet :: "rule_list_ref option"

text \<open>\<open>parseRule\<close> is the browser's CSS parser on the text of one rule, \<open>None\<close>
  when the text does not parse.\<close>

record style_world =
  style_elements :: "node \<Rightarrow> style_element"
  cssRules :: "rule_list_ref \<Rightarrow> css_rule list"
  styledComponentCSSRulesMap :: "node \<Rightarrow> rule_list_ref option"
  parseRule :: "string \<Rightarrow> css_rule option"

definition getStyledElementCSSRules :: "node \<Rightarrow> style_world \<Rightarrow> rule_list_ref option" where
  "getStyledElementCSSRules styledElement w = styledComponentCSSRulesMap w styledElement"

text \<open>
  \<^verbatim>\<open>!element.textContent && (element.sheet?.cssRules.length ||
  getStyledElementCSSRules(element)?.length)\<close>, as the truth value the callers test.
\<close>

definition isStyledComponentsLike :: "node \<Rightarrow> style_world \<Rightarrow> bool" where
  "isStyledComponentsLike element w =
     (style_textContent (style_elements w element) = [] \<and>
      ((case sheet (style_elements w element) of
          None \<Rightarrow> False
        | Some sh \<Rightarrow> length (cssRules w sh) \<noteq> 0) \<or>
       (case getStyledElementCSSRules element w of
          None \<Rightarrow> False
        | Some rs \<Rightarrow> length (cssRules w rs) \<noteq> 0)))"

fun recordStyledComponentsCSSRules :: "node list \<Rightarrow> style_world \<Rightarrow> style_world" where
  "recordStyledComponentsCSSRules [] w = w"
| "recordStyledComponentsCSSRules (styleElement # styleElements) w =
     recordStyledComponentsCSSRules styleElements
       (if isHTMLStyleElement (style_elements w styleElement) \<and>
           isStyledComponentsLike styleElement w
        then (case sheet (style_elements w styleElement) of
                Some sh \<Rightarrow>
                  w\<lparr>styledComponentCSSRulesMap :=
                       (styledComponentCSSRulesMap w)(styleElement := Some sh)\<rparr>
              | None \<Rightarrow> w)
        else w)"

text \<open>
  The browser's \<^verbatim>\<open>sheet.insertRule(text, index)\<close>, as the CSSOM defines it (``insert
  a CSS rule''), on the rules of the list: an index beyond the end throws
  \<^verbatim>\<open>IndexSizeError\<close>; a text that does not parse throws \<^verbatim>\<open>SyntaxError\<close>; a rule that
  may not stand at the index (an \<^verbatim>\<open>@import\<close> behind another kind of rule, or a rule
  in front of one that must precede it) throws \<^verbatim>\<open>HierarchyRequestError\<close>; an
  \<^verbatim>\<open>@namespace\<close> rule for a list that holds ordinary rules throws
  \<^verbatim>\<open>InvalidStateError\<close>; otherwise the parsed rule is inserted at the index.
\<close>

fun rule_rank :: "rule_kind \<Rightarrow> nat" where
  "rule_rank ImportRule = 0"
| "rule_rank NamespaceRule = 1"
| "rule_rank OtherRule = 2"

definition insert_a_css_rule ::
  "(string \<Rightarrow> css_rule option) \<Rightarrow> css_rule list \<Rightarrow> string \<Rightarrow> nat \<Rightarrow> exn + css_rule list" where
  "insert_a_css_rule parse rules text index =
     (if index > length rules then Inl IndexSizeError
      else
        (case parse text of
           None \<Rightarrow> Inl SyntaxError
         | Some new \<Rightarrow>
             if \<not> (list_all (\<lambda>r. rule_rank (ruleKind r) \<le> rule_rank (ruleKind new))
                      (take index rules) \<and>
                    list_all (\<lambda>r. rule_rank (ruleKind new) \<le> rule_rank (ruleKind r))
                      (drop index rules))
             then Inl HierarchyRequestError
             else if ruleKind new = NamespaceRule \<and>
                     \<not> list_all (\<lambda>r. ruleKind r \<noteq> OtherRule) rules
             then Inl InvalidStateError
             else Inr (take index rules @ [new] @ drop index rules)))"

definition insertRule ::
  "rule_list_ref \<Rightarrow> string \<Rightarrow> nat \<Rightarrow> style_world \<Rightarrow> (exn + nat) \<times> style_world" where
  "insertRule sh text index w =
     (case insert_a_css_rule (parseRule w) (cssRules w sh) text index of
        Inl e \<Rightarrow> (Inl e, w)
      | Inr rules \<Rightarrow> (Inr index, w\<lparr>cssRules := (cssRules w)(sh := rules)\<rparr>))"

text \<open>
  The \<^verbatim>\<open>for (let i = 0; i < cssRules.length; i++)\<close> loop of
  \<^verbatim>\<open>rebuildCSSRules\<close>. The bound is read from the live list on every round, so the
  loop need not end: the result is \<open>None\<close> when it runs forever. A call on a
  \<^verbatim>\<open>null\<close> sheet throws a \<^verbatim>\<open>TypeError\<close>, and an exception of
  \<^verbatim>\<open>insertRule\<close> leaves the loop.
\<close>

partial_function (option) rebuild_loop ::
  "node \<Rightarrow> rule_list_ref \<Rightarrow> nat \<Rightarrow> style_world \<Rightarrow> ((exn + unit) \<times> style_world) option" where
  "rebuild_loop stylesheetElement rs i w =
     (if i < length (cssRules w rs) then
        (let cssRule = cssRules w rs ! i
         in case sheet (style_elements w stylesheetElement) of
              None \<Rightarrow> Some (Inl TypeError, w)
            | Some cssStyleSheetElement \<Rightarrow>
                (case insertRule cssStyleSheetElement (cssText cssRule)
                        (length (cssRules w cssStyleSheetElement)) w of
                   (Inl e, w') \<Rightarrow> Some (Inl e, w')
                 | (Inr k, w') \<Rightarrow> rebuild_loop stylesheetElement rs (i + 1) w'))
      else Some (Inr (), w))"

text \<open>
  The callback \<^verbatim>\<open>rebuildCSSRules\<close> passes to \<^verbatim>\<open>forEach\<close>. \<^verbatim>\<open>reAppendElement\<close>
  is the caller's function: it may change the page, throw, or report failure.
\<close>

type_synonym reAppend = "node \<Rightarrow> style_world \<Rightarrow> (exn + bool) \<times> style_world"

definition rebuildCSSRules_each ::
  "reAppend \<Rightarrow> node \<Rightarrow> style_world \<Rightarrow> ((exn + unit) \<times> style_world) option" where
  "rebuildCSSRules_each reAppendElement stylesheetElement w =
     (case reAppendElement stylesheetElement w of
        (Inl e, w1) \<Rightarrow> Some (Inl e, w1)
      | (Inr appendSuccess, w1) \<Rightarrow>
          if appendSuccess then
            (if isHTMLStyleElement (style_elements w1 stylesheetElement) \<and>
                isStyledComponentsLike stylesheetElement w1
             then (case getStyledElementCSSRules stylesheetElement w1 of
                     Some rs \<Rightarrow> rebuild_loop stylesheetElement rs 0 w1
                   | None \<Rightarrow> Some (Inr (), w1))
             else Some (Inr (), w1))
          else Some (Inr (), w1))"

text \<open>\<^verbatim>\<open>styleSheetElements.forEach(...)\<close>: an exception thrown by the callback ends the
  iteration.\<close>

fun rebuildCSSRules ::
  "node list \<Rightarrow> reAppend \<Rightarrow> style_world \<Rightarrow> ((exn + unit) \<times> style_world) option" where
  "rebuildCSSRules [] reAppendElement w = Some (Inr (), w)"
| "rebuildCSSRules (stylesheetElement # styleSheetElements) reAppendElement w =
     (case rebuildCSSRules_each reAppendElement stylesheetElement w of
        None \<Rightarrow> None
      | Some (Inl e, w1) \<Rightarrow> Some (Inl e, w1)
      | Some (Inr u, w1) \<Rightarrow> rebuildCSSRules styleSheetElements reAppendElement w1)"

text \<open>
  The claim's wording of the replay, for comparison: the texts of the preserved rules are
  appended to the live rules one after the other, each at the end; the first text the
  browser does not accept at the end ends the replay with the browser's exception.
\<close>

fun replay_in_order ::
  "(string \<Rightarrow> css_rule option) \<Rightarrow> css_rule list \<Rightarrow> string list \<Rightarrow> exn option \<times> css_rule list" where
  "replay_in_order parse live [] = (None, live)"
| "replay_in_order parse live (text # texts) =
     (case insert_a_css_rule parse live text (length live) of
        Inl e \<Rightarrow> (Some e, live)
      | Inr live' \<Rightarrow> replay_in_order parse live' texts)"

text \<open>
  An example of \<^verbatim>\<open>reAppendElement\<close>: the element is attached again and has the new
  style sheet \<open>fresh\<close>, holding the rules \<open>initial\<close> (none, unless something has
  put rules into the new sheet before the replay).
\<close>

definition example_reAppend :: "rule_list_ref \<Rightarrow> css_rule list \<Rightarrow> reAppend" where
  "example_reAppend fresh initial el w =
     (Inr True,
      w\<lparr>style_elements := (style_elements w)
           (el := (style_elements w el)\<lparr>sheet := Some fresh\<rparr>),
        cssRules := (cssRules w)(fresh := initial)\<rparr>)"

text \<open>An example parser: it tells the kind of a rule by the way its text begins.\<close>

definition example_parseRule :: "string \<Rightarrow> css_rule option" where
  "example_parseRule text =
     (if text = [] then None
      else Some \<lparr>cssText = text,
                 ruleKind = (if take 7 text = ''@import'' then ImportRule
                             else if take 10 text = ''@namespace'' then NamespaceRule
                             else OtherRule)\<rparr>)"

text \<open>An example page: the style elements are detached; the two rules of element 0
  were preserved in rule list 5, and the one rule of element 2, an \<^verbatim>\<open>@import\<close>, in
  rule list 6.\<close>

definition example_style_world :: style_world where
  "example_style_world =
     \<lparr>style_elements =
        (\<lambda>n. \<lparr>isHTMLStyleElement = True, style_textContent = [], sheet = None\<rparr>),
      cssRules =
        (\<lambda>r. if r = 5 then [\<lparr>cssText = ''.a{color:red}'', ruleKind = OtherRule\<rparr>,
                              \<lparr>cssText = ''.b{top:0}'', ruleKind = OtherRule\<rparr>]
             else if r = 6 then [\<lparr>cssText = ''@import url(a.css);'', ruleKind = ImportRule\<rparr>]
             else []),
      styledComponentCSSRulesMap =
        (\<lambda>n. if n = 0 then Some 5 else if n = 2 then Some 6 else None),
      parseRule = example_parseRule\<rparr>"

section \<open>Mutation interceptor (sandbox/src/patchers/dynamicAppend/common.ts)\<close>

text \<open>
  The state the interceptor works on. The document tree itself (type \<open>'d\<close>) is only
  touched through the browser's own operations; beside it stand what the code reads and
  writes directly: the \<^verbatim>\<open>tagName\<close> of a node (\<open>None\<close> on a node that is not an
  element), the \<^verbatim>\<open>styleElementTargetSymbol\<close> property of a node, the arrays
  \<^verbatim>\<open>dynamicStyleSheetElements\<close> of the sandbox configurations (mutable objects, in a
  store indexed by reference), the two module-level weak maps of attached artifacts, and
  what has been written by \<^verbatim>\<open>console.warn\<close>.
\<close>

datatype DynamicDomMutationTarget = Head | Body

type_synonym array_ref = nat

record 'd world =
  document :: 'd
  tagName :: "node \<Rightarrow> string option"
  styleElementTarget :: "node \<Rightarrow> DynamicDomMutationTarget option"
  arrays :: "array_ref \<Rightarrow> node list"
  dynamicLinkAttachedInlineStyleMap :: "node \<Rightarrow> node option"
  dynamicScriptAttachedCommentMap :: "node \<Rightarrow> node option"
  console :: "exn list"

text \<open>A call that can throw returns the thrown error or its value, and the state it
  leaves behind.\<close>

type_synonym ('a, 'd) call = "'d world \<Rightarrow> (exn + 'a) \<times> 'd world"

text \<open>
  \<^verbatim>\<open>SandboxConfig\<close>, supplied by the orchestrator. \<^verbatim>\<open>getContainer\<close> and the two
  oracles below are queries: they may throw but leave the state as it is.
\<close>

record ('d, 's) SandboxConfig =
  getContainer :: "'d world \<Rightarrow> exn + node"
  dynamicStyleSheetElements :: array_ref
  sandbox :: 's

text \<open>The browser operations the interceptor calls that are not patched, and
  \<^verbatim>\<open>transpileAssets\<close> of \<^verbatim>\<open>@qiankunjs/shared\<close> (with \<^verbatim>\<open>location.href\<close> and the
  global \<^verbatim>\<open>fetch\<close> it is given).\<close>

record ('d, 's) platform =
  contains :: "'d \<Rightarrow> node \<Rightarrow> node option \<Rightarrow> bool"
  parentNode :: "'d \<Rightarrow> node \<Rightarrow> node option"
  transpileAssets :: "node \<Rightarrow> 's \<Rightarrow> (node, 'd) call"

definition SCRIPT_TAG_NAME :: string where "SCRIPT_TAG_NAME = ''SCRIPT''"
definition LINK_TAG_NAME :: string where "LINK_TAG_NAME = ''LINK''"
definition STYLE_TAG_NAME :: string where "STYLE_TAG_NAME = ''STYLE''"

text \<open>\<^verbatim>\<open>String.prototype.toUpperCase\<close> on tag names, which are ASCII.\<close>

definition toUpperCase_char :: "char \<Rightarrow> char" where
  "toUpperCase_char c =
     (let n = (of_char c :: nat) in if 97 \<le> n \<and> n \<le> 122 then char_of (n - 32) else c)"

definition toUpperCase :: "string \<Rightarrow> string" where
  "toUpperCase t = map toUpperCase_char t"

text \<open>\<^verbatim>\<open>tagName?.toUpperCase() === ...\<close>: \<^verbatim>\<open>undefined\<close> equals none of the names.\<close>

definition isHijackingTag :: "string option \<Rightarrow> bool" where
  "isHijackingTag tag =
     (case tag of
        None \<Rightarrow> False
      | Some t \<Rightarrow>
          toUpperCase t = LINK_TAG_NAME \<or> toUpperCase t = STYLE_TAG_NAME \<or>
          toUpperCase t = SCRIPT_TAG_NAME)"

text \<open>
  The claim's wording of the same test, for comparison: the tag is script, style or
  link, letter case ignored.
\<close>

definition toLowerCase_char :: "char \<Rightarrow> char" where
  "toLowerCase_char c =
     (let n = (of_char c :: nat) in if 65 \<le> n \<and> n \<le> 90 then char_of (n + 32) else c)"

definition tag_is_script_style_or_link :: "string option \<Rightarrow> bool" where
  "tag_is_script_style_or_link tag =
     (case tag of
        None \<Rightarrow> False
      | Some t \<Rightarrow> map toLowerCase_char t \<in> set [''script'', ''style'', ''link''])"

text \<open>The options closed over by \<^verbatim>\<open>getOverwrittenAppendChildOrInsertBefore\<close>.\<close>

record ('d, 's) insert_opts =
  rawDOMAppendOrInsertBefore :: "node \<Rightarrow> node \<Rightarrow> node option \<Rightarrow> (node, 'd) call"
  isInvokedByMicroApp :: "node \<Rightarrow> 'd world \<Rightarrow> exn + bool"
  getSandboxConfig :: "node \<Rightarrow> 'd world \<Rightarrow> exn + ('d, 's) SandboxConfig"
  target :: "DynamicDomMutationTarget option"

text \<open>
  \<^verbatim>\<open>appendChildOrInsertBefore\<close>, called on \<open>this\<close> with \<open>newChild\<close> and
  \<open>refChild\<close> (\<open>None\<close> for \<^verbatim>\<open>null\<close>, also the default).
\<close>

definition appendChildOrInsertBefore ::
  "('d, 's) platform \<Rightarrow> ('d, 's) insert_opts \<Rightarrow> node \<Rightarrow> node \<Rightarrow> node option \<Rightarrow> (node, 'd) call" where
  "appendChildOrInsertBefore env opts this newChild refChild w =
     (let element = newChild;
          tgt = (case target opts of None \<Rightarrow> Body | Some t \<Rightarrow> t)
      in if \<not> isHijackingTag (tagName w element) then
           rawDOMAppendOrInsertBefore opts this element refChild w
         else
           (case isInvokedByMicroApp opts element w of
              Inl e \<Rightarrow> (Inl e, w)
            | Inr False \<Rightarrow> rawDOMAppendOrInsertBefore opts this element refChild w
            | Inr True \<Rightarrow>
                if truthy (tagName w element) then
                  (case getSandboxConfig opts element w of
                     Inl e \<Rightarrow> (Inl e, w)
                   | Inr containerConfig \<Rightarrow>
                       if tagName w element = Some LINK_TAG_NAME \<or>
                          tagName w element = Some STYLE_TAG_NAME
                       then
                         (let stylesheetElement = newChild;
                              w1 = w\<lparr>styleElementTarget :=
                                      (styleElementTarget w)(stylesheetElement := Some tgt)\<rparr>
                          in case getContainer containerConfig w1 of
                               Inl e \<Rightarrow> (Inl e, w1)
                             | Inr container \<Rightarrow>
                                 (let mountDOM = container;
                                      r = dynamicStyleSheetElements containerConfig;
                                      w2 = w1\<lparr>arrays := (arrays w1)
                                              (r := arrays w1 r @ [stylesheetElement])\<rparr>;
                                      referenceNode =
                                        (if contains env (document w2) mountDOM refChild
                                         then refChild else None)
                                  in rawDOMAppendOrInsertBefore opts mountDOM stylesheetElement
                                       referenceNode w2))
                       else if tagName w element = Some SCRIPT_TAG_NAME then
                         (case getContainer containerConfig w of
                            Inl e \<Rightarrow> (Inl e, w)
                          | Inr container \<Rightarrow>
                              (let mountDOM = container;
                                   referenceNode =
                                     (if contains env (document w) mountDOM refChild
                                      then refChild else None)
                               in case transpileAssets env element (sandbox containerConfig) w of
                                    (Inl e, w1) \<Rightarrow> (Inl e, w1)
                                  | (Inr node, w1) \<Rightarrow>
                                      rawDOMAppendOrInsertBefore opts mountDOM node
                                        referenceNode w1))
                       else rawDOMAppendOrInsertBefore opts this element refChild w)
                else rawDOMAppendOrInsertBefore opts this element refChild w))"

text \<open>
  \<^verbatim>\<open>indexOf\<close> and \<^verbatim>\<open>splice(index, 1)\<close> on the registry: the first occurrence is
  taken out, a missing element leaves the array as it is.
\<close>

fun indexOf :: "node list \<Rightarrow> node \<Rightarrow> nat option" where
  "indexOf [] x = None"
| "indexOf (y # ys) x =
     (if y = x then Some 0 else (case indexOf ys x of None \<Rightarrow> None | Some i \<Rightarrow> Some (Suc i)))"

definition splice1 :: "nat \<Rightarrow> node list \<Rightarrow> node list" where
  "splice1 i xs = take i xs @ drop (Suc i) xs"

text \<open>How the \<^verbatim>\<open>try\<close> block of \<^verbatim>\<open>removeChild\<close> ends: with its \<^verbatim>\<open>return\<close>, with
  an exception, or by running to its end.\<close>

datatype try_end = Returned node | Threw exn | Completed

definition removeChild_try ::
  "('d, 's) platform \<Rightarrow> (node \<Rightarrow> node \<Rightarrow> (node, 'd) call) \<Rightarrow>
   (node \<Rightarrow> 'd world \<Rightarrow> exn + ('d, 's) SandboxConfig) \<Rightarrow> node \<Rightarrow> 'd world \<Rightarrow> try_end \<times> 'd world" where
  "removeChild_try env rawRemoveChild containerConfigGetter child w =
     (case containerConfigGetter child w of
        Inl e \<Rightarrow> (Threw e, w)
      | Inr containerConfig \<Rightarrow>
          (let r = dynamicStyleSheetElements containerConfig;
               (attachedElement, w1) =
                 (if tagName w child = Some STYLE_TAG_NAME \<or> tagName w child = Some LINK_TAG_NAME
                  then
                    (let attached =
                           (case dynamicLinkAttachedInlineStyleMap w child of
                              Some a \<Rightarrow> a | None \<Rightarrow> child)
                     in case indexOf (arrays w r) attached of
                          Some dynamicElementIndex \<Rightarrow>
                            (attached,
                             w\<lparr>arrays := (arrays w)
                                 (r := splice1 dynamicElementIndex (arrays w r))\<rparr>)
                        | None \<Rightarrow> (attached, w))
                  else if tagName w child = Some SCRIPT_TAG_NAME then
                    ((case dynamicScriptAttachedCommentMap w child of
                        Some a \<Rightarrow> a | None \<Rightarrow> child), w)
                  else (child, w))
           in case getContainer containerConfig w1 of
                Inl e \<Rightarrow> (Threw e, w1)
              | Inr container \<Rightarrow>
                  if contains env (document w1) container (Some attachedElement) then
                    (case parentNode env (document w1) attachedElement of
                       None \<Rightarrow> (Threw TypeError, w1)
                     | Some parent \<Rightarrow>
                         (case rawRemoveChild parent attachedElement w1 of
                            (Inl e, w2) \<Rightarrow> (Threw e, w2)
                          | (Inr removed, w2) \<Rightarrow> (Returned removed, w2)))
                  else (Completed, w1)))"

text \<open>
  \<^verbatim>\<open>removeChild\<close> as returned by \<^verbatim>\<open>getNewRemoveChild(rawRemoveChild,
  containerConfigGetter, target, isInvokedByMicroApp)\<close>, called on \<open>this\<close>.
\<close>

definition removeChild ::
  "('d, 's) platform \<Rightarrow> (node \<Rightarrow> node \<Rightarrow> (node, 'd) call) \<Rightarrow>
   (node \<Rightarrow> 'd world \<Rightarrow> exn + ('d, 's) SandboxConfig) \<Rightarrow> DynamicDomMutationTarget \<Rightarrow>
   (node \<Rightarrow> 'd world \<Rightarrow> exn + bool) \<Rightarrow> node \<Rightarrow> node \<Rightarrow> (node, 'd) call" where
  "removeChild env rawRemoveChild containerConfigGetter tgt isInvokedByMicroApp' this child w =
     (if \<not> isHijackingTag (tagName w child) then rawRemoveChild this child w
      else
        (case isInvokedByMicroApp' child w of
           Inl e \<Rightarrow> (Inl e, w)
         | Inr False \<Rightarrow> rawRemoveChild this child w
         | Inr True \<Rightarrow>
             (case removeChild_try env rawRemoveChild containerConfigGetter child w of
                (Returned removed, w1) \<Rightarrow> (Inr removed, w1)
              | (Threw e, w1) \<Rightarrow> rawRemoveChild this child (w1\<lparr>console := console w1 @ [e]\<rparr>)
              | (Completed, w1) \<Rightarrow> rawRemoveChild this child w1)))"

section \<open>Installing and removing the interception\<close>

text \<open>
  Function objects have identity, and the installer tells its own functions from all
  others by the \<^verbatim>\<open>overwrittenSymbol\<close> property it sets on them. A function value is
  either one the module did not make (the browser's built-in, or another library's
  replacement), or one of the module's two closures together with what it has captured:
  the function it delegates to, the oracles (type \<open>'o\<close>) and the target.
\<close>

datatype 'o dom_function =
    Original string
  | AppendChildOrInsertBefore "'o dom_function" 'o DynamicDomMutationTarget
  | RemoveChild "'o dom_function" 'o DynamicDomMutationTarget

text \<open>\<^verbatim>\<open>f[overwrittenSymbol] === true\<close>: the symbol is private to the module, so only
  its closures carry it.\<close>

fun overwritten :: "'o dom_function \<Rightarrow> bool" where
  "overwritten (Original name) = False"
| "overwritten (AppendChildOrInsertBefore raw oracles tgt) = True"
| "overwritten (RemoveChild raw oracles tgt) = True"

text \<open>How many of the module's closures a call passes through before it reaches a
  function the module did not make.\<close>

fun interception_layers :: "'o dom_function \<Rightarrow> nat" where
  "interception_layers (Original name) = 0"
| "interception_layers (AppendChildOrInsertBefore raw oracles tgt) = Suc (interception_layers raw)"
| "interception_layers (RemoveChild raw oracles tgt) = Suc (interception_layers raw)"

definition getOverwrittenAppendChildOrInsertBefore ::
  "'o dom_function \<Rightarrow> 'o \<Rightarrow> DynamicDomMutationTarget \<Rightarrow> 'o dom_function" where
  "getOverwrittenAppendChildOrInsertBefore rawDOMAppendOrInsertBefore' oracles tgt =
     AppendChildOrInsertBefore rawDOMAppendOrInsertBefore' oracles tgt"

definition getNewRemoveChild ::
  "'o dom_function \<Rightarrow> 'o \<Rightarrow> DynamicDomMutationTarget \<Rightarrow> 'o dom_function" where
  "getNewRemoveChild rawRemoveChild oracles tgt = RemoveChild rawRemoveChild oracles tgt"

text \<open>The five properties of the two prototypes that the installer reads and assigns.\<close>

record 'o prototypes =
  HTMLHeadElement_appendChild :: "'o dom_function"
  HTMLHeadElement_insertBefore :: "'o dom_function"
  HTMLHeadElement_removeChild :: "'o dom_function"
  HTMLBodyElement_appendChild :: "'o dom_function"
  HTMLBodyElement_removeChild :: "'o dom_function"

text \<open>What the returned \<^verbatim>\<open>unpatch\<close> closure has captured: the five constants read by
  the call that made it.\<close>

record 'o unpatch_closure =
  rawHeadAppendChild :: "'o dom_function"
  rawBodyAppendChild :: "'o dom_function"
  rawHeadInsertBefore :: "'o dom_function"
  rawHeadRemoveChild :: "'o dom_function"
  rawBodyRemoveChild :: "'o dom_function"

definition patchHTMLDynamicAppendPrototypeFunctions ::
  "'o \<Rightarrow> 'o prototypes \<Rightarrow> 'o unpatch_closure \<times> 'o prototypes" where
  "patchHTMLDynamicAppendPrototypeFunctions oracles P =
     (let rawHeadAppendChild' = HTMLHeadElement_appendChild P;
          rawBodyAppendChild' = HTMLBodyElement_appendChild P;
          rawHeadInsertBefore' = HTMLHeadElement_insertBefore P;
          P1 = (if \<not> overwritten rawHeadAppendChild' \<and> \<not> overwritten rawBodyAppendChild' \<and>
                   \<not> overwritten rawHeadInsertBefore'
                then P\<lparr>HTMLHeadElement_appendChild :=
                         getOverwrittenAppendChildOrInsertBefore rawHeadAppendChild' oracles Head,
                       HTMLBodyElement_appendChild :=
                         getOverwrittenAppendChildOrInsertBefore rawBodyAppendChild' oracles Body,
                       HTMLHeadElement_insertBefore :=
                         getOverwrittenAppendChildOrInsertBefore rawHeadInsertBefore' oracles Head\<rparr>
                else P);
          rawHeadRemoveChild' = HTMLHeadElement_removeChild P1;
          rawBodyRemoveChild' = HTMLBodyElement_removeChild P1;
          P2 = (if \<not> overwritten rawHeadRemoveChild' \<and> \<not> overwritten rawBodyRemoveChild'
                then P1\<lparr>HTMLHeadElement_removeChild :=
                          getNewRemoveChild rawHeadRemoveChild' oracles Head,
                        HTMLBodyElement_removeChild :=
                          getNewRemoveChild rawBodyRemoveChild' oracles Body\<rparr>
                else P1)
      in (\<lparr>rawHeadAppendChild = rawHeadAppendChild',
           rawBodyAppendChild = rawBodyAppendChild',
           rawHeadInsertBefore = rawHeadInsertBefore',
           rawHeadRemoveChild = rawHeadRemoveChild',
           rawBodyRemoveChild = rawBodyRemoveChild'\<rparr>, P2))"

definition unpatch :: "'o unpatch_closure \<Rightarrow> 'o prototypes \<Rightarrow> 'o prototypes" where
  "unpatch u P =
     P\<lparr>HTMLHeadElement_appendChild := rawHeadAppendChild u,
       HTMLHeadElement_removeChild := rawHeadRemoveChild u,
       HTMLBodyElement_appendChild := rawBodyAppendChild u,
       HTMLBodyElement_removeChild := rawBodyRemoveChild u,
       HTMLHeadElement_insertBefore := rawHeadInsertBefore u\<rparr>"

text \<open>The prototypes of a page nobody has patched: both elements inherit the three
  operations of \<^verbatim>\<open>Node.prototype\<close>.\<close>

definition browser_prototypes :: "'o prototypes" where
  "browser_prototypes =
     \<lparr>HTMLHeadElement_appendChild = Original ''Node.prototype.appendChild'',
      HTMLHeadElement_insertBefore = Original ''Node.prototype.insertBefore'',
      HTMLHeadElement_removeChild = Original ''Node.prototype.removeChild'',
      HTMLBodyElement_appendChild = Original ''Node.prototype.appendChild'',
      HTMLBodyElement_removeChild = Original ''Node.prototype.removeChild''\<rparr>"

text \<open>The state \<^verbatim>\<open>Unpatched\<close>: none of the five properties holds a function of the
  module.\<close>

definition unpatched :: "'o prototypes \<Rightarrow> bool" where
  "unpatched P =
     (\<not> overwritten (HTMLHeadElement_appendChild P) \<and>
      \<not> overwritten (HTMLHeadElement_insertBefore P) \<and>
      \<not> overwritten (HTMLHeadElement_removeChild P) \<and>
      \<not> overwritten (HTMLBodyElement_appendChild P) \<and>
      \<not> overwritten (HTMLBodyElement_removeChild P))"

section \<open>A small document, to run the interceptor on\<close>

text \<open>
  A document tree with parent pointers and ordered child lists, and the browser's
  insertion and removal on it: removing a node from a parent it is not a child of throws
  \<^verbatim>\<open>NotFoundError\<close>, as does inserting before a reference that is not a child of the
  parent; inserting a node into its own subtree throws \<^verbatim>\<open>HierarchyRequestError\<close>;
  \<^verbatim>\<open>appendChild\<close> is \<^verbatim>\<open>insertBefore\<close> with the reference \<^verbatim>\<open>null\<close>.
  \<open>dom_height\<close> bounds the depth of the tree.
\<close>

record dom =
  dom_parent :: "node \<Rightarrow> node option"
  dom_children :: "node \<Rightarrow> node list"
  dom_height :: nat

fun dom_ancestor :: "nat \<Rightarrow> (node \<Rightarrow> node option) \<Rightarrow> node \<Rightarrow> node \<Rightarrow> bool" where
  "dom_ancestor 0 par a b = (a = b)"
| "dom_ancestor (Suc k) par a b =
     (a = b \<or> (case par b of None \<Rightarrow> False | Some p \<Rightarrow> dom_ancestor k par a p))"

definition dom_contains :: "dom \<Rightarrow> node \<Rightarrow> node option \<Rightarrow> bool" where
  "dom_contains d a other =
     (case other of None \<Rightarrow> False | Some b \<Rightarrow> dom_ancestor (dom_height d) (dom_parent d) a b)"

definition dom_detach :: "node \<Rightarrow> dom \<Rightarrow> dom" where
  "dom_detach n d =
     (case dom_parent d n of
        None \<Rightarrow> d
      | Some p \<Rightarrow> d\<lparr>dom_parent := (dom_parent d)(n := None),
                     dom_children := (dom_children d)(p := remove1 n (dom_children d p))\<rparr>)"

fun insert_before :: "node \<Rightarrow> node \<Rightarrow> node list \<Rightarrow> node list" where
  "insert_before x r [] = [x]"
| "insert_before x r (y # ys) = (if y = r then x # y # ys else y # insert_before x r ys)"

definition native_insertBefore :: "node \<Rightarrow> node \<Rightarrow> node option \<Rightarrow> (node, dom) call" where
  "native_insertBefore this newChild refChild w =
     (let d = document w
      in if dom_contains d newChild (Some this) then (Inl HierarchyRequestError, w)
         else
           (case refChild of
              None \<Rightarrow>
                (let d1 = dom_detach newChild d
                 in (Inr newChild,
                     w\<lparr>document := d1\<lparr>dom_parent := (dom_parent d1)(newChild := Some this),
                          dom_children := (dom_children d1)
                            (this := dom_children d1 this @ [newChild])\<rparr>\<rparr>))
            | Some r \<Rightarrow>
                if dom_parent d r \<noteq> Some this then (Inl NotFoundError, w)
                else if r = newChild then (Inr newChild, w)
                else
                  (let d1 = dom_detach newChild d
                   in (Inr newChild,
                       w\<lparr>document := d1\<lparr>dom_parent := (dom_parent d1)(newChild := Some this),
                            dom_children := (dom_children d1)
                              (this := insert_before newChild r (dom_children d1 this))\<rparr>\<rparr>))))"

definition native_removeChild :: "node \<Rightarrow> node \<Rightarrow> (node, dom) call" where
  "native_removeChild this child w =
     (if dom_parent (document w) child = Some this
      then (Inr child, w\<lparr>document := dom_detach child (document w)\<rparr>)
      else (Inl NotFoundError, w))"

definition example_platform :: "(dom, unit) platform" where
  "example_platform =
     \<lparr>contains = dom_contains, parentNode = dom_parent,
      transpileAssets = (\<lambda>n s w. (Inr n, w))\<rparr>"

text \<open>
  The example page: node 1 is the head and node 2 the body; node 3, in the body, is the
  container of the one micro-app and holds the elements 6 (a \<^verbatim>\<open>div\<close>) and 7 (a style
  element redirected earlier, in the app's registry, array 0). Node 4 is a style element
  and node 5 a \<^verbatim>\<open>div\<close>, both created by the app and not yet inserted; node 10 is a
  style element of the app that sits in the head itself; node 11 is an element of the
  app whose tag name is the lower-case \<^verbatim>\<open>style\<close> (as for an element that is not in
  the HTML namespace), not yet inserted; node 12 is a \<^verbatim>\<open>div\<close> inside element 6.
  Node 8 (a \<^verbatim>\<open>meta\<close> element in the head) and node 9 (a style element, not yet
  inserted) belong to the main application.
\<close>

definition example_world :: "dom world" where
  "example_world =
     \<lparr>document =
        \<lparr>dom_parent = (\<lambda>n. if n = 3 then Some 2 else if n = 6 \<or> n = 7 then Some 3
                          else if n = 8 \<or> n = 10 then Some 1
                          else if n = 12 then Some 6 else None),
         dom_children = (\<lambda>n. if n = 1 then [8, 10] else if n = 2 then [3]
                            else if n = 3 then [6, 7] else if n = 6 then [12] else []),
         dom_height = 4\<rparr>,
      tagName = (\<lambda>n. if n = 1 then Some ''HEAD'' else if n = 2 then Some ''BODY''
                     else if n = 4 \<or> n = 7 \<or> n = 9 \<or> n = 10 then Some ''STYLE''
                     else if n = 8 then Some ''META''
                     else if n = 11 then Some ''style'' else Some ''DIV''),
      styleElementTarget = (\<lambda>n. if n = 7 then Some Head else None),
      arrays = (\<lambda>r. if r = 0 then [7] else []),
      dynamicLinkAttachedInlineStyleMap = (\<lambda>n. None),
      dynamicScriptAttachedCommentMap = (\<lambda>n. None),
      console = []\<rparr>"

definition example_config :: "(dom, unit) SandboxConfig" where
  "example_config =
     \<lparr>getContainer = (\<lambda>w. Inr 3), dynamicStyleSheetElements = 0, sandbox = ()\<rparr>"

text \<open>The attribution oracle of the example: the nodes 4 to 7 and 10 to 12 belong to
  the micro-app.\<close>

definition example_isInvokedByMicroApp :: "node \<Rightarrow> dom world \<Rightarrow> exn + bool" where
  "example_isInvokedByMicroApp n w = Inr ((4 \<le> n \<and> n \<le> 7) \<or> (10 \<le> n \<and> n \<le> 12))"

definition example_opts :: "(dom, unit) insert_opts" where
  "example_opts =
     \<lparr>rawDOMAppendOrInsertBefore = native_insertBefore,
      isInvokedByMicroApp = example_isInvokedByMicroApp,
      getSandboxConfig = (\<lambda>n w. Inr example_config),
      target = Some Head\<rparr>"

text \<open>The oracle after the app has been torn down: its configuration is gone.\<close>

definition example_getSandboxConfig_gone ::
  "node \<Rightarrow> dom world \<Rightarrow> exn + (dom, unit) SandboxConfig" where
  "example_getSandboxConfig_gone n w = Inl (Thrown ''no sandbox config for the element'')"

text \<open>A configuration whose \<^verbatim>\<open>getContainer\<close> throws: the container is gone.\<close>

definition example_config_no_container :: "(dom, unit) SandboxConfig" where
  "example_config_no_container =
     \<lparr>getContainer = (\<lambda>w. Inl (Thrown ''the container is gone'')),
      dynamicStyleSheetElements = 0, sandbox = ()\<rparr>"

text \<open>An original \<^verbatim>\<open>removeChild\<close> that is another library's replacement of the
  browser's: it refuses to remove anything from node 3.\<close>

definition example_guarded_removeChild :: "node \<Rightarrow> node \<Rightarrow> (node, dom) call" where
  "example_guarded_removeChild this child w =
     (if this = 3 then (Inl (Thrown ''node 3 is protected''), w)
      else native_removeChild this child w)"

section \<open>Properties of the lifecycle counters\<close>

lemma map_get_map_set: "map_get (map_set m k v) k' = (if k' = k then Some v else map_get m k')"
  by (induction m) auto

lemma map_get_in_set: "map_get m k = Some v \<Longrightarrow> (k, v) \<in> set m"
  by (induction m) (auto split: if_splits)

lemma keys_map_set: "fst ` set (map_set m k v) = insert k (fst ` set m)"
  by (induction m k v rule: map_set.induct) auto

lemma distinct_map_set: "distinct (map fst m) \<Longrightarrow> distinct (map fst (map_set m k v))"
  by (induction m) (auto simp: keys_map_set)

lemma in_set_map_get: "distinct (map fst m) \<Longrightarrow> (k, v) \<in> set m \<Longrightarrow> map_get m k = Some v"
  by (induction m) (auto simp: rev_image_eqI)

lemma counter_of_calcAppCount:
  "counter_of (calcAppCount a t s m) a' s' =
     (if a' = a \<and> s' = s
      then (case t of
              Increase \<Rightarrow> counter_of m a s + 1
            | Decrease \<Rightarrow> if counter_of m a s > 0 then counter_of m a s - 1 else counter_of m a s)
      else counter_of m a' s')"
  by (cases s; cases s'; cases t)
     (auto simp: counter_of_def calcAppCount_def map_get_map_set Let_def split: option.splits)

lemma counter_of_calls_nonneg:
  "(\<And>a s. 0 \<le> counter_of m a s) \<Longrightarrow> 0 \<le> counter_of (calcAppCount_calls calls m) a s"
proof (induction calls arbitrary: m a s)
  case Nil
  then show ?case by simp
next
  case (Cons c calls)
  obtain a' t' s' where c: "c = (a', t', s')" by (cases c) auto
  have step: "0 \<le> counter_of (calcAppCount a' t' s' m) b r" for b r
    using Cons.prems [of b r] Cons.prems [of a' s']
    by (auto simp: counter_of_calcAppCount split: calc_type.splits)
  show ?case
    unfolding c calcAppCount_calls.simps by (rule Cons.IH) (rule step)
qed

lemma distinct_calcAppCount_calls:
  "distinct (map fst m) \<Longrightarrow> distinct (map fst (calcAppCount_calls calls m))"
  by (induction calls arbitrary: m) (auto simp: calcAppCount_def Let_def distinct_map_set)

lemma isAllAppsUnmounted_iff:
  assumes "distinct (map fst m)"
  shows "isAllAppsUnmounted m \<longleftrightarrow>
         (\<forall>a c. map_get m a = Some c \<longrightarrow> bootstrappingPatchCount c = 0 \<and> mountingPatchCount c = 0)"
proof
  assume "isAllAppsUnmounted m"
  then show "\<forall>a c. map_get m a = Some c \<longrightarrow> bootstrappingPatchCount c = 0 \<and> mountingPatchCount c = 0"
    by (auto simp: isAllAppsUnmounted_def list_all_iff dest!: map_get_in_set)
next
  assume r: "\<forall>a c. map_get m a = Some c \<longrightarrow> bootstrappingPatchCount c = 0 \<and> mountingPatchCount c = 0"
  show "isAllAppsUnmounted m"
    unfolding isAllAppsUnmounted_def list_all_iff
  proof (intro ballI)
    fix p assume p: "p \<in> set m"
    obtain a c where pc: "p = (a, c)" by (cases p) auto
    from assms p pc have "map_get m a = Some c" by (simp add: in_set_map_get)
    with r pc show "case p of (appName, c) \<Rightarrow> bootstrappingPatchCount c = 0 \<and> mountingPatchCount c = 0"
      by auto
  qed
qed

text \<open>
  Claim C3. Starting from the empty registry of a freshly loaded module, after any
  sequence of \<^verbatim>\<open>calcAppCount\<close> calls every counter is non-negative; a call with
  \<^verbatim>\<open>increase\<close> adds 1 to the counter of its (appName, phase) pair; a call with
  \<^verbatim>\<open>decrease\<close> subtracts 1 when the counter is strictly positive and leaves it
  unchanged otherwise; no call changes the counter of another pair; and
  \<^verbatim>\<open>isAllAppsUnmounted()\<close> is true if and only if every app that has an entry in
  the registry has both its bootstrapping and its mounting counter equal to 0.
\<close>

theorem calcAppCount_counter_floor:
  "0 \<le> counter_of (calcAppCount_calls calls appsCounterMap_initial) a s
   \<and> counter_of (calcAppCount a Increase s m) a s = counter_of m a s + 1
   \<and> counter_of (calcAppCount a Decrease s m) a s =
         (if counter_of m a s > 0 then counter_of m a s - 1 else counter_of m a s)
   \<and> ((a', s') \<noteq> (a, s) \<longrightarrow>
          counter_of (calcAppCount a t s m) a' s' = counter_of m a' s')
   \<and> (isAllAppsUnmounted (calcAppCount_calls calls appsCounterMap_initial) \<longleftrightarrow>
        (\<forall>b c. map_get (calcAppCount_calls calls appsCounterMap_initial) b = Some c \<longrightarrow>
               bootstrappingPatchCount c = 0 \<and> mountingPatchCount c = 0))"
proof (intro conjI)
  show "0 \<le> counter_of (calcAppCount_calls calls appsCounterMap_initial) a s"
    by (rule counter_of_calls_nonneg) (simp add: counter_of_def appsCounterMap_initial_def)
  show "counter_of (calcAppCount a Increase s m) a s = counter_of m a s + 1"
    by (simp add: counter_of_calcAppCount)
  show "counter_of (calcAppCount a Decrease s m) a s =
           (if counter_of m a s > 0 then counter_of m a s - 1 else counter_of m a s)"
    by (simp add: counter_of_calcAppCount)
  show "(a', s') \<noteq> (a, s) \<longrightarrow> counter_of (calcAppCount a t s m) a' s' = counter_of m a' s'"
    by (auto simp: counter_of_calcAppCount)
  have "distinct (map fst (calcAppCount_calls calls appsCounterMap_initial))"
    by (rule distinct_calcAppCount_calls) (simp add: appsCounterMap_initial_def)
  then show "isAllAppsUnmounted (calcAppCount_calls calls appsCounterMap_initial) \<longleftrightarrow>
        (\<forall>b c. map_get (calcAppCount_calls calls appsCounterMap_initial) b = Some c \<longrightarrow>
               bootstrappingPatchCount c = 0 \<and> mountingPatchCount c = 0)"
    by (rule isAllAppsUnmounted_iff)
qed

theorem calcAppCount_counter_floor_witness:
  "0 \<le> counter_of (calcAppCount_calls
            [(''app1'', Decrease, Mounting), (''app1'', Increase, Bootstrapping)]
            appsCounterMap_initial) ''app1'' Mounting
   \<and> counter_of (calcAppCount ''app1'' Increase Mounting []) ''app1'' Mounting = 1
   \<and> counter_of (calcAppCount ''app1'' Decrease Mounting []) ''app1'' Mounting = 0
   \<and> (''app1'', Bootstrapping) \<noteq> (''app1'', Mounting)
   \<and> counter_of (calcAppCount ''app1'' Increase Mounting []) ''app1'' Bootstrapping = 0
   \<and> \<not> isAllAppsUnmounted (calcAppCount_calls
            [(''app1'', Decrease, Mounting), (''app1'', Increase, Bootstrapping)]
            appsCounterMap_initial)
   \<and> map_get (calcAppCount_calls
            [(''app1'', Decrease, Mounting), (''app1'', Increase, Bootstrapping)]
            appsCounterMap_initial) ''app1''
       = Some \<lparr>bootstrappingPatchCount = 1, mountingPatchCount = 0\<rparr>"
  using calcAppCount_counter_floor
    [of "[(''app1'', Decrease, Mounting), (''app1'', Increase, Bootstrapping)]"
        "''app1''" Mounting "[]" "''app1''" Bootstrapping Increase]
  by (simp add: counter_of_def calcAppCount_def appsCounterMap_initial_def isAllAppsUnmounted_def)

text \<open>
  Claim C10. In the initial process state, before any \<^verbatim>\<open>calcAppCount\<close> call, the
  registry is empty and \<^verbatim>\<open>isAllAppsUnmounted()\<close> returns true.
\<close>

theorem isAllAppsUnmounted_initially:
  "isAllAppsUnmounted appsCounterMap_initial \<and> appsCounterMap_initial = []"
  by (simp add: isAllAppsUnmounted_def appsCounterMap_initial_def)

section \<open>Properties of the script transform pipeline\<close>

lemma transpileScript_external:
  assumes "src_attribute (scripts p script) = Some src" and "src \<noteq> []"
    and "opts_sandbox opts = Some sb"
  shows "transpileScript g script baseURI opts p =
     p\<lparr>scripts := (scripts p)
           (script := (scripts p script)\<lparr>src_attribute := None,
                                         dataset_src := Some (g src baseURI)\<rparr>),
       pending_fetches := pending_fetches p @
         [\<lparr>job_script = script, job_scriptSrc = g src baseURI, job_sandbox = sb\<rparr>]\<rparr>"
  using assms by (simp add: transpileScript_def truthy_def Let_def)

lemma settle_fetch_job:
  assumes "i < length (pending_fetches q)" and "pending_fetches q ! i = job"
  shows "settle_fetch i (ResponseText code) q =
     q\<lparr>pending_fetches := take i (pending_fetches q) @ drop (Suc i) (pending_fetches q),
       objectURLs :=
         (''blob:'' @ replicate (length (objectURLs q)) (CHR ''1''),
          makeEvaluateFactory (job_sandbox job) code (job_scriptSrc job)) # objectURLs q,
       scripts := (scripts q)
         (job_script job := (scripts q (job_script job))
            \<lparr>src_attribute :=
               Some (''blob:'' @ replicate (length (objectURLs q)) (CHR ''1''))\<rparr>)\<rparr>"
  using assms by (simp add: settle_fetch_def fetch_continuation_def createObjectURL_def Let_def)

text \<open>Every object URL that is created uses up one request in flight.\<close>

lemma page_step_budget:
  "length (objectURLs (page_step e q)) + length (pending_fetches (page_step e q))
     \<le> length (objectURLs q) + length (pending_fetches q)"
  by (cases e)
     (auto simp: settle_fetch_def fetch_continuation_def createObjectURL_def Let_def
           split: fetch_result.splits)

lemma page_run_budget:
  "length (objectURLs (page_run es q)) + length (pending_fetches (page_run es q))
     \<le> length (objectURLs q) + length (pending_fetches q)"
proof (induction es arbitrary: q)
  case Nil
  show ?case by simp
next
  case (Cons e es)
  have "length (objectURLs (page_run es (page_step e q)))
          + length (pending_fetches (page_run es (page_step e q)))
        \<le> length (objectURLs (page_step e q)) + length (pending_fetches (page_step e q))"
    by (rule Cons.IH)
  also note page_step_budget
  finally show ?case by simp
qed

text \<open>
  Claim C4. For a script node whose \<^verbatim>\<open>src\<close> attribute is present and not empty,
  processed with a sandbox: when \<^verbatim>\<open>transpileScript\<close> returns, the \<^verbatim>\<open>src\<close>
  attribute is removed, \<^verbatim>\<open>dataset.src\<close> holds the URL resolved against the base URL,
  and one request for that URL is in flight. Whenever that request later resolves with
  the fetched text, the node's \<^verbatim>\<open>src\<close> is an object URL whose blob is the text
  returned by the sandbox's \<^verbatim>\<open>makeEvaluateFactory\<close> for the fetched code and the
  resolved URL, not the fetched text itself.
\<close>

theorem transpileScript_external_sandboxed:
  assumes "src_attribute (scripts p script) = Some src" and "src \<noteq> []"
    and "opts_sandbox opts = Some sb"
  shows "src_attribute (scripts (transpileScript g script baseURI opts p) script) = None
    \<and> dataset_src (scripts (transpileScript g script baseURI opts p) script)
        = Some (g src baseURI)
    \<and> pending_fetches (transpileScript g script baseURI opts p) =
        pending_fetches p @
          [\<lparr>job_script = script, job_scriptSrc = g src baseURI, job_sandbox = sb\<rparr>]
    \<and> (\<forall>q i code.
          i < length (pending_fetches q) \<and>
          pending_fetches q ! i =
            \<lparr>job_script = script, job_scriptSrc = g src baseURI, job_sandbox = sb\<rparr> \<longrightarrow>
          (\<exists>url. src_attribute (scripts (settle_fetch i (ResponseText code) q) script) = Some url \<and>
             map_get (objectURLs (settle_fetch i (ResponseText code) q)) url =
               Some (makeEvaluateFactory sb code (g src baseURI))))"
  using assms
  by (auto simp: transpileScript_external settle_fetch_job)

theorem transpileScript_external_sandboxed_witness:
  "src_attribute (scripts (transpileScript example_getEntireUrl 0 ''https://host/app/''
       \<lparr>opts_sandbox = Some example_sandbox\<rparr> (example_page example_script)) 0) = None
   \<and> dataset_src (scripts (transpileScript example_getEntireUrl 0 ''https://host/app/''
       \<lparr>opts_sandbox = Some example_sandbox\<rparr> (example_page example_script)) 0)
       = Some ''https://host/app/a.js''
   \<and> src_attribute (scripts (settle_fetch 0 (ResponseText ''f()'')
         (transpileScript example_getEntireUrl 0 ''https://host/app/''
           \<lparr>opts_sandbox = Some example_sandbox\<rparr> (example_page example_script))) 0)
       = Some ''blob:''
   \<and> map_get (objectURLs (settle_fetch 0 (ResponseText ''f()'')
         (transpileScript example_getEntireUrl 0 ''https://host/app/''
           \<lparr>opts_sandbox = Some example_sandbox\<rparr> (example_page example_script)))) ''blob:''
       = Some ''(function(window){f()})(proxy)''"
  using transpileScript_external_sandboxed
    [of "example_page example_script" 0 "''./a.js''" "\<lparr>opts_sandbox = Some example_sandbox\<rparr>"
        example_sandbox example_getEntireUrl "''https://host/app/''"]
  by (simp add: example_page_def example_script_def example_sandbox_def
      example_getEntireUrl_def transpileScript_def truthy_def settle_fetch_def
      fetch_continuation_def createObjectURL_def Let_def)

text \<open>
  Claim C1, as the code has it. For a script node whose \<^verbatim>\<open>src\<close> attribute is present
  and not empty, processed with a sandbox on a page with no other request in flight:
  whatever events follow, at most one object URL is created, so the wrapped code is
  installed at most once. The continuation does not look at the node's attachment state:
  when the node leaves the document after the fetch has started and the fetch then
  resolves, the wrapped code is installed as the node's \<^verbatim>\<open>src\<close> all the same, and
  the object URL created for it stays in the browser's store.
\<close>

theorem transpileScript_installs_once_unchecked:
  assumes "src_attribute (scripts p script) = Some src" and "src \<noteq> []"
    and "opts_sandbox opts = Some sb" and "pending_fetches p = []"
  shows "length (objectURLs (page_run events (transpileScript g script baseURI opts p)))
           \<le> length (objectURLs p) + 1
    \<and> src_attribute (scripts
          (page_run [LeavesDocument script, FetchSettles 0 (ResponseText code)]
             (transpileScript g script baseURI opts p)) script)
        = Some (''blob:'' @ replicate (length (objectURLs p)) (CHR ''1''))
    \<and> \<not> isConnected (scripts
          (page_run [LeavesDocument script, FetchSettles 0 (ResponseText code)]
             (transpileScript g script baseURI opts p)) script)
    \<and> objectURLs
          (page_run [LeavesDocument script, FetchSettles 0 (ResponseText code)]
             (transpileScript g script baseURI opts p))
        = (''blob:'' @ replicate (length (objectURLs p)) (CHR ''1''),
           makeEvaluateFactory sb code (g src baseURI)) # objectURLs p"
proof (intro conjI)
  have "length (objectURLs (page_run events (transpileScript g script baseURI opts p)))
      \<le> length (objectURLs (transpileScript g script baseURI opts p))
        + length (pending_fetches (transpileScript g script baseURI opts p))"
    using page_run_budget [of events "transpileScript g script baseURI opts p"] by simp
  also have "\<dots> = length (objectURLs p) + 1"
    using assms by (simp add: transpileScript_external)
  finally show "length (objectURLs (page_run events (transpileScript g script baseURI opts p)))
           \<le> length (objectURLs p) + 1" .
qed (use assms in \<open>simp_all add: transpileScript_external settle_fetch_def
      fetch_continuation_def createObjectURL_def Let_def\<close>)

theorem transpileScript_installs_once_unchecked_witness:
  "length (objectURLs (page_run
       [FetchSettles 0 (ResponseText ''f()''), FetchSettles 0 (ResponseText ''g()'')]
       (transpileScript example_getEntireUrl 0 ''https://host/app/''
          \<lparr>opts_sandbox = Some example_sandbox\<rparr> (example_page example_script)))) \<le> 1
   \<and> objectURLs (page_run [LeavesDocument 0, FetchSettles 0 (ResponseText ''g()'')]
       (transpileScript example_getEntireUrl 0 ''https://host/app/''
          \<lparr>opts_sandbox = Some example_sandbox\<rparr> (example_page example_script)))
      = [(''blob:'', makeEvaluateFactory example_sandbox ''g()'' ''https://host/app/a.js'')]"
  using transpileScript_installs_once_unchecked
    [of "example_page example_script" 0 "''./a.js''" "\<lparr>opts_sandbox = Some example_sandbox\<rparr>"
        example_sandbox
        "[FetchSettles 0 (ResponseText ''f()''), FetchSettles 0 (ResponseText ''g()'')]"
        example_getEntireUrl "''https://host/app/''" "''g()''"]
  by (simp add: example_page_def example_script_def example_getEntireUrl_def)

text \<open>
  The claim as stated fails: the script of the example is processed with a sandbox, its
  node leaves the document while the request is in flight, and when the response arrives
  the detached node still gets the wrapped code as its \<^verbatim>\<open>src\<close>, with the object URL
  left in the store.
\<close>

theorem transpileScript_installs_after_detach_counterexample:
  "\<not> isConnected (scripts (page_run [LeavesDocument 0]
        (transpileScript example_getEntireUrl 0 ''https://host/app/''
           \<lparr>opts_sandbox = Some example_sandbox\<rparr> (example_page example_script))) 0)
   \<and> src_attribute (scripts (page_run [LeavesDocument 0, FetchSettles 0 (ResponseText ''f()'')]
        (transpileScript example_getEntireUrl 0 ''https://host/app/''
           \<lparr>opts_sandbox = Some example_sandbox\<rparr> (example_page example_script))) 0)
       = Some ''blob:''
   \<and> objectURLs (page_run [LeavesDocument 0, FetchSettles 0 (ResponseText ''f()'')]
        (transpileScript example_getEntireUrl 0 ''https://host/app/''
           \<lparr>opts_sandbox = Some example_sandbox\<rparr> (example_page example_script)))
       = [(''blob:'', ''(function(window){f()})(proxy)'')]"
  by (simp add: example_page_def example_script_def example_sandbox_def
      example_getEntireUrl_def transpileScript_def truthy_def settle_fetch_def
      fetch_continuation_def createObjectURL_def Let_def)

text \<open>
  Claim C5, as the code has it. For a script node whose declared type is not empty and
  not one of the recognized executable types: when the node is inline (its \<^verbatim>\<open>src\<close>
  attribute is absent or empty) the transform changes nothing at all, with or without a
  sandbox; and in every case the node's text content is left as it is.
\<close>

theorem transpileScript_data_script_untouched:
  assumes "script_type (scripts p script) \<noteq> []"
    and "script_type (scripts p script) \<notin> set handleTypes"
  shows "(\<not> truthy (src_attribute (scripts p script)) \<longrightarrow>
            transpileScript g script baseURI opts p = p)
    \<and> script_textContent (scripts (transpileScript g script baseURI opts p) script)
        = script_textContent (scripts p script)"
  using assms
  by (auto simp: transpileScript_def isValidJavaScriptType_def Let_def split: option.splits)

theorem transpileScript_data_script_untouched_witness:
  "script_type example_data_island \<noteq> []
   \<and> script_type example_data_island \<notin> set handleTypes
   \<and> \<not> truthy (src_attribute (scripts (example_page example_data_island) 0))
   \<and> transpileScript example_getEntireUrl 0 ''https://host/app/''
         \<lparr>opts_sandbox = Some example_sandbox\<rparr> (example_page example_data_island)
       = example_page example_data_island
   \<and> script_textContent (scripts (transpileScript example_getEntireUrl 0 ''https://host/app/''
         \<lparr>opts_sandbox = Some example_sandbox\<rparr> (example_page example_data_script)) 0) = []"
  using transpileScript_data_script_untouched
      [of "example_page example_data_island" 0 example_getEntireUrl
          "''https://host/app/''" "\<lparr>opts_sandbox = Some example_sandbox\<rparr>"]
    transpileScript_data_script_untouched
      [of "example_page example_data_script" 0 example_getEntireUrl
          "''https://host/app/''" "\<lparr>opts_sandbox = Some example_sandbox\<rparr>"]
  by (simp add: example_page_def example_data_island_def example_data_script_def
      handleTypes_def truthy_def)

text \<open>
  The claim as stated fails for a node that references an external resource: the type
  is only consulted on the inline branch. A script of type \<^verbatim>\<open>application/json\<close> with
  a \<^verbatim>\<open>src\<close> loses the attribute under a sandbox, and without a sandbox has it
  rewritten to the resolved URL.
\<close>

theorem transpileScript_external_data_script_counterexample:
  "script_type example_data_script \<noteq> []
   \<and> script_type example_data_script \<notin> set handleTypes
   \<and> src_attribute (scripts (example_page example_data_script) 0) = Some ''./data.json''
   \<and> src_attribute (scripts (transpileScript example_getEntireUrl 0 ''https://host/app/''
         \<lparr>opts_sandbox = Some example_sandbox\<rparr> (example_page example_data_script)) 0) = None
   \<and> src_attribute (scripts (transpileScript example_getEntireUrl 0 ''https://host/app/''
         \<lparr>opts_sandbox = None\<rparr> (example_page example_data_script)) 0)
       = Some ''https://host/app/data.json''"
  by (simp add: example_page_def example_data_script_def example_getEntireUrl_def
      handleTypes_def transpileScript_def truthy_def Let_def)

section \<open>Properties of the stylesheet rule preservation\<close>

lemma rule_rank_le_2: "rule_rank k \<le> 2"
  by (cases k) simp_all

lemma insertRule_accepted:
  assumes "insert_a_css_rule (parseRule w) (cssRules w sh) text index = Inr rules"
  shows "insertRule sh text index w = (Inr index, w\<lparr>cssRules := (cssRules w)(sh := rules)\<rparr>)"
  using assms by (simp add: insertRule_def)

lemma insertRule_rejected:
  assumes "insert_a_css_rule (parseRule w) (cssRules w sh) text index = Inl e"
  shows "insertRule sh text index w = (Inl e, w)"
  using assms by (simp add: insertRule_def)

text \<open>
  When the preserved list is not the live list of the element's sheet, the loop ends, and
  what it has done is the replay in order of the texts of the preserved rules from
  position \<open>i\<close> on: the preserved list itself is left as it is.
\<close>

lemma rebuild_loop_replays:
  assumes "sheet (style_elements w el) = Some sh" and "rs \<noteq> sh"
    and "i \<le> length (cssRules w rs)"
  shows "rebuild_loop el rs i w =
     Some (case replay_in_order (parseRule w) (cssRules w sh)
                  (map cssText (drop i (cssRules w rs))) of
             (None, rules) \<Rightarrow> (Inr (), w\<lparr>cssRules := (cssRules w)(sh := rules)\<rparr>)
           | (Some e, rules) \<Rightarrow> (Inl e, w\<lparr>cssRules := (cssRules w)(sh := rules)\<rparr>))"
  using assms
proof (induction "length (cssRules w rs) - i" arbitrary: i w)
  case 0
  then have "i = length (cssRules w rs)" by simp
  then show ?case
    by (subst rebuild_loop.simps) simp
next
  case (Suc k)
  then have lt: "i < length (cssRules w rs)" by simp
  then have texts: "map cssText (drop i (cssRules w rs)) =
      cssText (cssRules w rs ! i) # map cssText (drop (i + 1) (cssRules w rs))"
    by (simp add: Cons_nth_drop_Suc [symmetric])
  show ?case
  proof (cases "insert_a_css_rule (parseRule w) (cssRules w sh) (cssText (cssRules w rs ! i))
                  (length (cssRules w sh))")
    case (Inl e)
    then show ?thesis
      using lt Suc.prems(1)
      by (subst rebuild_loop.simps) (simp add: texts insertRule_rejected)
  next
    case (Inr rules)
    define w' where "w' = w\<lparr>cssRules := (cssRules w)(sh := rules)\<rparr>"
    have same: "cssRules w' rs = cssRules w rs"
      using Suc.prems(2) by (simp add: w'_def)
    have step: "rebuild_loop el rs i w = rebuild_loop el rs (i + 1) w'"
      using lt Suc.prems(1) Inr
      by (subst rebuild_loop.simps) (simp add: insertRule_accepted w'_def)
    have "rebuild_loop el rs (i + 1) w' =
       Some (case replay_in_order (parseRule w') (cssRules w' sh)
                    (map cssText (drop (i + 1) (cssRules w' rs))) of
               (None, rules) \<Rightarrow> (Inr (), w'\<lparr>cssRules := (cssRules w')(sh := rules)\<rparr>)
             | (Some e, rules) \<Rightarrow> (Inl e, w'\<lparr>cssRules := (cssRules w')(sh := rules)\<rparr>))"
    proof (rule Suc.hyps(1))
      show "k = length (cssRules w' rs) - (i + 1)" using Suc.hyps(2) same by simp
      show "sheet (style_elements w' el) = Some sh" using Suc.prems(1) by (simp add: w'_def)
      show "rs \<noteq> sh" by fact
      show "i + 1 \<le> length (cssRules w' rs)" using lt same by simp
    qed
    moreover have "w'\<lparr>cssRules := (cssRules w')(sh := x)\<rparr> = w\<lparr>cssRules := (cssRules w)(sh := x)\<rparr>"
      for x by (simp add: w'_def)
    moreover have "parseRule w' = parseRule w" "cssRules w' sh = rules"
      by (simp_all add: w'_def)
    ultimately show ?thesis
      using step Inr same by (simp add: texts split: prod.splits option.splits)
  qed
qed

text \<open>
  The browser accepts every preserved rule when the text of each parses back to the rule
  and the live rules followed by the preserved ones respect the order of the kinds of
  rules.
\<close>

lemma replay_in_order_accepts:
  assumes "\<forall>r\<in>set rules. parse (cssText r) = Some r"
    and "sorted (map (\<lambda>r. rule_rank (ruleKind r)) (live @ rules))"
  shows "replay_in_order parse live (map cssText rules) = (None, live @ rules)"
  using assms
proof (induction rules arbitrary: live)
  case Nil
  show ?case by simp
next
  case (Cons r rules)
  have le: "\<forall>x\<in>set live. rule_rank (ruleKind x) \<le> rule_rank (ruleKind r)"
    using Cons.prems(2) by (auto simp: sorted_append)
  have ns: "ruleKind r = NamespaceRule \<Longrightarrow> \<forall>x\<in>set live. ruleKind x \<noteq> OtherRule"
    using le by auto
  have ins: "insert_a_css_rule parse live (cssText r) (length live) = Inr (live @ [r])"
    using Cons.prems(1) le ns by (auto simp: insert_a_css_rule_def list_all_iff)
  have "replay_in_order parse (live @ [r]) (map cssText rules) = (None, (live @ [r]) @ rules)"
    using Cons.prems by (intro Cons.IH) auto
  then show ?case using ins by simp
qed

text \<open>
  When the preserved list is the live list of the element's sheet (the element kept its
  sheet, so nothing was lost) and the browser accepts every rule, every round of the loop
  makes the list it is bounded by one longer: the loop never returns.
\<close>

lemma rebuild_loop_aliased_returns_not:
  assumes "rebuild_loop el rs i w = Some r"
  shows "\<not> (sheet (style_elements w el) = Some rs \<and> i < length (cssRules w rs) \<and>
            (\<forall>text. \<exists>new. parseRule w text = Some new \<and> ruleKind new = OtherRule))"
proof (rule rebuild_loop.raw_induct
    [where P = "\<lambda>el rs i w r.
        \<not> (sheet (style_elements w el) = Some rs \<and> i < length (cssRules w rs) \<and>
            (\<forall>text. \<exists>new. parseRule w text = Some new \<and> ruleKind new = OtherRule))",
     OF _ assms], goal_cases)
  case (1 f el rs i w r)
  show ?case
  proof
    assume a: "sheet (style_elements w el) = Some rs \<and> i < length (cssRules w rs) \<and>
            (\<forall>text. \<exists>new. parseRule w text = Some new \<and> ruleKind new = OtherRule)"
    then obtain new where new: "parseRule w (cssText (cssRules w rs ! i)) = Some new"
        "ruleKind new = OtherRule"
      by blast
    have ins: "insert_a_css_rule (parseRule w) (cssRules w rs) (cssText (cssRules w rs ! i))
        (length (cssRules w rs)) = Inr (cssRules w rs @ [new])"
      using new by (simp add: insert_a_css_rule_def list_all_iff rule_rank_le_2)
    define w' where "w' = w\<lparr>cssRules := (cssRules w)(rs := cssRules w rs @ [new])\<rparr>"
    from a 1(2) have "f el rs (i + 1) w' = Some r"
      by (simp add: insertRule_accepted [OF ins] w'_def)
    from 1(1) [OF this] a show False by (simp add: w'_def)
  qed
qed

lemma rebuild_loop_aliased_diverges:
  "sheet (style_elements w el) = Some rs \<Longrightarrow> i < length (cssRules w rs) \<Longrightarrow>
   \<forall>text. \<exists>new. parseRule w text = Some new \<and> ruleKind new = OtherRule \<Longrightarrow>
   rebuild_loop el rs i w = None"
  using rebuild_loop_aliased_returns_not [of el rs i w]
  by (cases "rebuild_loop el rs i w") auto

text \<open>
  Claim C9, as the code has it. Let \<^verbatim>\<open>reAppendElement\<close> succeed on a style element,
  after which the element is an \<^verbatim>\<open>HTMLStyleElement\<close> with no text content and has
  the style sheet \<open>sh\<close> that the reattachment gave it. If a rule list \<open>rs\<close> was
  preserved for the element (a list other than the new sheet's own),
  \<^verbatim>\<open>rebuildCSSRules\<close> returns, and what it has done is the replay in order: the text
  of each preserved rule is inserted at the end of the live rule list, behind the rules
  already there, until the browser rejects one, whose exception then leaves
  \<^verbatim>\<open>rebuildCSSRules\<close> with the rules before it appended. When the text of every
  preserved rule parses back to the rule, and the live rules followed by the preserved
  ones respect the order of \<^verbatim>\<open>@import\<close>, \<^verbatim>\<open>@namespace\<close> and other rules (as they
  do when the preserved rules are ordinary style rules), all preserved rules are
  appended, in their original order, and nothing else changes. If no rule list was
  preserved for the element, \<^verbatim>\<open>rebuildCSSRules\<close> changes nothing beyond the
  reattachment.
\<close>

theorem rebuildCSSRules_replays_preserved_rules:
  assumes "reAppendElement el w = (Inr True, w1)"
    and "isHTMLStyleElement (style_elements w1 el)"
    and "style_textContent (style_elements w1 el) = []"
    and "sheet (style_elements w1 el) = Some sh"
  shows "(styledComponentCSSRulesMap w1 el = Some rs \<and> rs \<noteq> sh \<longrightarrow>
            rebuildCSSRules [el] reAppendElement w =
              Some (case replay_in_order (parseRule w1) (cssRules w1 sh)
                           (map cssText (cssRules w1 rs)) of
                      (None, rules) \<Rightarrow>
                        (Inr (), w1\<lparr>cssRules := (cssRules w1)(sh := rules)\<rparr>)
                    | (Some e, rules) \<Rightarrow>
                        (Inl e, w1\<lparr>cssRules := (cssRules w1)(sh := rules)\<rparr>)))
       \<and> (styledComponentCSSRulesMap w1 el = Some rs \<and> rs \<noteq> sh \<and>
          (\<forall>r\<in>set (cssRules w1 rs). parseRule w1 (cssText r) = Some r) \<and>
          sorted (map (\<lambda>r. rule_rank (ruleKind r)) (cssRules w1 sh @ cssRules w1 rs)) \<longrightarrow>
            rebuildCSSRules [el] reAppendElement w =
              Some (Inr (),
                    w1\<lparr>cssRules := (cssRules w1)(sh := cssRules w1 sh @ cssRules w1 rs)\<rparr>))
       \<and> (styledComponentCSSRulesMap w1 el = None \<longrightarrow>
            rebuildCSSRules [el] reAppendElement w = Some (Inr (), w1))"
proof -
  have general: "rebuildCSSRules [el] reAppendElement w =
              Some (case replay_in_order (parseRule w1) (cssRules w1 sh)
                           (map cssText (cssRules w1 rs)) of
                      (None, rules) \<Rightarrow>
                        (Inr (), w1\<lparr>cssRules := (cssRules w1)(sh := rules)\<rparr>)
                    | (Some e, rules) \<Rightarrow>
                        (Inl e, w1\<lparr>cssRules := (cssRules w1)(sh := rules)\<rparr>))"
    if a: "styledComponentCSSRulesMap w1 el = Some rs" "rs \<noteq> sh"
  proof (cases "isStyledComponentsLike el w1")
    case True
    have loop: "rebuild_loop el rs 0 w1 =
       Some (case replay_in_order (parseRule w1) (cssRules w1 sh)
                           (map cssText (cssRules w1 rs)) of
                      (None, rules) \<Rightarrow>
                        (Inr (), w1\<lparr>cssRules := (cssRules w1)(sh := rules)\<rparr>)
                    | (Some e, rules) \<Rightarrow>
                        (Inl e, w1\<lparr>cssRules := (cssRules w1)(sh := rules)\<rparr>))"
      using rebuild_loop_replays [of w1 el sh rs 0] assms(4) a by simp
    show ?thesis
      using assms a True loop
      by (auto simp: rebuildCSSRules_each_def getStyledElementCSSRules_def
               split: prod.splits option.splits)
  next
    case False
    then have "cssRules w1 sh = []" "cssRules w1 rs = []"
      using assms a by (auto simp: isStyledComponentsLike_def getStyledElementCSSRules_def)
    then show ?thesis
      using assms False by (simp add: rebuildCSSRules_each_def fun_upd_idem)
  qed
  show ?thesis
  proof (intro conjI impI)
    assume "styledComponentCSSRulesMap w1 el = Some rs \<and> rs \<noteq> sh"
    then show "rebuildCSSRules [el] reAppendElement w =
              Some (case replay_in_order (parseRule w1) (cssRules w1 sh)
                           (map cssText (cssRules w1 rs)) of
                      (None, rules) \<Rightarrow>
                        (Inr (), w1\<lparr>cssRules := (cssRules w1)(sh := rules)\<rparr>)
                    | (Some e, rules) \<Rightarrow>
                        (Inl e, w1\<lparr>cssRules := (cssRules w1)(sh := rules)\<rparr>))"
      using general by simp
  next
    assume b: "styledComponentCSSRulesMap w1 el = Some rs \<and> rs \<noteq> sh \<and>
          (\<forall>r\<in>set (cssRules w1 rs). parseRule w1 (cssText r) = Some r) \<and>
          sorted (map (\<lambda>r. rule_rank (ruleKind r)) (cssRules w1 sh @ cssRules w1 rs))"
    then have "replay_in_order (parseRule w1) (cssRules w1 sh) (map cssText (cssRules w1 rs))
        = (None, cssRules w1 sh @ cssRules w1 rs)"
      by (intro replay_in_order_accepts) auto
    then show "rebuildCSSRules [el] reAppendElement w =
              Some (Inr (),
                    w1\<lparr>cssRules := (cssRules w1)(sh := cssRules w1 sh @ cssRules w1 rs)\<rparr>)"
      using general b by simp
  next
    assume "styledComponentCSSRulesMap w1 el = None"
    then show "rebuildCSSRules [el] reAppendElement w = Some (Inr (), w1)"
      using assms by (simp add: rebuildCSSRules_each_def getStyledElementCSSRules_def)
  qed
qed

theorem rebuildCSSRules_replays_preserved_rules_witness:
  "cssRules (snd (the (rebuildCSSRules [0] (example_reAppend 9 []) example_style_world))) 9
     = [\<lparr>cssText = ''.a{color:red}'', ruleKind = OtherRule\<rparr>,
        \<lparr>cssText = ''.b{top:0}'', ruleKind = OtherRule\<rparr>]
   \<and> fst (the (rebuildCSSRules [0] (example_reAppend 9 []) example_style_world)) = Inr ()
   \<and> cssRules (snd (the (rebuildCSSRules [0]
         (example_reAppend 9 [\<lparr>cssText = ''.x{}'', ruleKind = OtherRule\<rparr>])
         example_style_world))) 9
     = [\<lparr>cssText = ''.x{}'', ruleKind = OtherRule\<rparr>,
        \<lparr>cssText = ''.a{color:red}'', ruleKind = OtherRule\<rparr>,
        \<lparr>cssText = ''.b{top:0}'', ruleKind = OtherRule\<rparr>]
   \<and> rebuildCSSRules [1] (example_reAppend 9 []) example_style_world
      = Some (Inr (), snd (example_reAppend 9 [] 1 example_style_world))"
proof -
  have a: "rebuildCSSRules [0] (example_reAppend 9 []) example_style_world =
      Some (Inr (), (snd (example_reAppend 9 [] 0 example_style_world))
        \<lparr>cssRules := (cssRules (snd (example_reAppend 9 [] 0 example_style_world)))
           (9 := cssRules (snd (example_reAppend 9 [] 0 example_style_world)) 9 @
                 cssRules (snd (example_reAppend 9 [] 0 example_style_world)) 5)\<rparr>)"
    by (rule rebuildCSSRules_replays_preserved_rules
          [where sh = 9 and rs = 5, THEN conjunct2, THEN conjunct1, rule_format])
       (simp_all add: example_reAppend_def example_style_world_def
      example_parseRule_def)
  have b: "rebuildCSSRules [0]
        (example_reAppend 9 [\<lparr>cssText = ''.x{}'', ruleKind = OtherRule\<rparr>]) example_style_world =
      Some (Inr (), (snd (example_reAppend 9 [\<lparr>cssText = ''.x{}'', ruleKind = OtherRule\<rparr>] 0
                            example_style_world))
        \<lparr>cssRules := (cssRules (snd (example_reAppend 9
              [\<lparr>cssText = ''.x{}'', ruleKind = OtherRule\<rparr>] 0 example_style_world)))
           (9 := cssRules (snd (example_reAppend 9
                   [\<lparr>cssText = ''.x{}'', ruleKind = OtherRule\<rparr>] 0 example_style_world)) 9 @
                 cssRules (snd (example_reAppend 9
                   [\<lparr>cssText = ''.x{}'', ruleKind = OtherRule\<rparr>] 0 example_style_world)) 5)\<rparr>)"
    by (rule rebuildCSSRules_replays_preserved_rules
          [where sh = 9 and rs = 5, THEN conjunct2, THEN conjunct1, rule_format])
       (simp_all add: example_reAppend_def example_style_world_def
      example_parseRule_def)
  have c: "rebuildCSSRules [1] (example_reAppend 9 []) example_style_world
      = Some (Inr (), snd (example_reAppend 9 [] 1 example_style_world))"
    by (rule rebuildCSSRules_replays_preserved_rules
          [where sh = 9, THEN conjunct2, THEN conjunct2, rule_format])
       (simp_all add: example_reAppend_def example_style_world_def
      example_parseRule_def)
  show ?thesis
    unfolding a b c by (simp add: example_reAppend_def example_style_world_def
      example_parseRule_def)
qed

text \<open>
  The claim as stated fails: the one rule preserved for style element 2 is an
  \<^verbatim>\<open>@import\<close>. The element is attached again and its new sheet already holds an
  ordinary rule when the replay starts; the browser does not take an \<^verbatim>\<open>@import\<close>
  behind it, \<^verbatim>\<open>insertRule\<close> throws, and \<^verbatim>\<open>rebuildCSSRules\<close> ends with the
  exception and the preserved rule not appended.
\<close>

theorem rebuildCSSRules_import_rejected_counterexample:
  "fst (example_reAppend 9 [\<lparr>cssText = ''.x{}'', ruleKind = OtherRule\<rparr>] 2 example_style_world)
     = Inr True
   \<and> style_textContent (style_elements example_style_world 2) = []
   \<and> isHTMLStyleElement (style_elements example_style_world 2)
   \<and> map cssText (cssRules example_style_world
        (the (styledComponentCSSRulesMap example_style_world 2))) = [''@import url(a.css);'']
   \<and> rebuildCSSRules [2] (example_reAppend 9 [\<lparr>cssText = ''.x{}'', ruleKind = OtherRule\<rparr>])
        example_style_world
      = Some (Inl HierarchyRequestError,
              snd (example_reAppend 9 [\<lparr>cssText = ''.x{}'', ruleKind = OtherRule\<rparr>] 2
                     example_style_world))"
proof -
  define w1 where
    "w1 = snd (example_reAppend 9 [\<lparr>cssText = ''.x{}'', ruleKind = OtherRule\<rparr>] 2
                 example_style_world)"
  have loop: "rebuild_loop 2 6 0 w1 = Some (Inl HierarchyRequestError, w1)"
    by (subst rebuild_loop.simps)
       (simp add: w1_def example_reAppend_def example_style_world_def
      example_parseRule_def insertRule_def insert_a_css_rule_def)
  have each: "rebuildCSSRules_each
       (example_reAppend 9 [\<lparr>cssText = ''.x{}'', ruleKind = OtherRule\<rparr>]) 2 example_style_world
     = Some (Inl HierarchyRequestError, w1)"
    unfolding rebuildCSSRules_each_def
    using loop
    by (simp add: w1_def example_reAppend_def example_style_world_def
      example_parseRule_def isStyledComponentsLike_def
        getStyledElementCSSRules_def)
  show ?thesis
    using each by (simp add: w1_def example_reAppend_def example_style_world_def
      example_parseRule_def)
qed

section \<open>Properties of the mutation interceptor\<close>

lemma toLowerCase_toUpperCase_char:
  "toLowerCase_char (toUpperCase_char c) = toLowerCase_char c"
proof -
  have "(of_char c :: nat) < 256" by simp
  then show ?thesis
    by (auto simp: toLowerCase_char_def toUpperCase_char_def Let_def)
qed

lemma toUpperCase_toLowerCase_char:
  "toUpperCase_char (toLowerCase_char c) = toUpperCase_char c"
proof -
  have "(of_char c :: nat) < 256" by simp
  then show ?thesis
    by (auto simp: toLowerCase_char_def toUpperCase_char_def Let_def)
qed

lemma toUpperCase_eq_iff:
  assumes "map toUpperCase_char l = u" and "map toLowerCase_char u = l"
  shows "toUpperCase t = u \<longleftrightarrow> map toLowerCase_char t = l"
proof
  assume "toUpperCase t = u"
  then have "map toLowerCase_char (map toUpperCase_char t) = l"
    using assms by (simp add: toUpperCase_def)
  then show "map toLowerCase_char t = l"
    by (simp add: toLowerCase_toUpperCase_char comp_def)
next
  assume "map toLowerCase_char t = l"
  then have "map toUpperCase_char (map toLowerCase_char t) = u"
    using assms by simp
  then show "toUpperCase t = u"
    by (simp add: toUpperCase_toLowerCase_char toUpperCase_def comp_def)
qed

text \<open>The test of the code is the test of the claim: the tag is script, style or link,
  whatever the case of its letters.\<close>

lemma isHijackingTag_iff: "isHijackingTag tag \<longleftrightarrow> tag_is_script_style_or_link tag"
proof (cases tag)
  case None
  then show ?thesis by (simp add: isHijackingTag_def tag_is_script_style_or_link_def)
next
  case (Some t)
  have 1: "toUpperCase t = ''LINK'' \<longleftrightarrow> map toLowerCase_char t = ''link''"
    by (rule toUpperCase_eq_iff; code_simp)
  have 2: "toUpperCase t = ''STYLE'' \<longleftrightarrow> map toLowerCase_char t = ''style''"
    by (rule toUpperCase_eq_iff; code_simp)
  have 3: "toUpperCase t = ''SCRIPT'' \<longleftrightarrow> map toLowerCase_char t = ''script''"
    by (rule toUpperCase_eq_iff; code_simp)
  show ?thesis
    unfolding Some isHijackingTag_def tag_is_script_style_or_link_def
      LINK_TAG_NAME_def STYLE_TAG_NAME_def SCRIPT_TAG_NAME_def option.case 1 2 3
    by auto
qed

lemma isHijackingTag_examples:
  "isHijackingTag (Some ''STYLE'')" "isHijackingTag (Some ''LINK'')"
  "isHijackingTag (Some ''SCRIPT'')"
  "\<not> isHijackingTag (Some ''DIV'')" "\<not> isHijackingTag (Some ''META'')"
  by code_simp+

lemma tag_examples:
  "\<not> tag_is_script_style_or_link (Some ''DIV'')"
  "\<not> tag_is_script_style_or_link (Some ''META'')"
  "tag_is_script_style_or_link (Some ''STYLE'')"
  by code_simp+

lemmas example_defs =
  example_world_def example_opts_def example_platform_def example_config_def
  example_isInvokedByMicroApp_def native_insertBefore_def native_removeChild_def
  dom_contains_def dom_detach_def eval_nat_numeral

text \<open>
  Claim C6. For a node whose tag is not script, style or link (letter case ignored),
  or for which the attribution oracle answers that the caller is not a micro-app, the
  patched insert operation and the patched remove operation are the original operation
  called on the same target with the same arguments: same result, same resulting state.
\<close>

theorem patched_operations_pass_through:
  assumes "\<not> tag_is_script_style_or_link (tagName w child) \<or>
           isInvokedByMicroApp opts child w = Inr False"
  shows "appendChildOrInsertBefore env opts this child refChild w =
           rawDOMAppendOrInsertBefore opts this child refChild w
       \<and> removeChild env rawRemoveChild containerConfigGetter tgt (isInvokedByMicroApp opts)
           this child w = rawRemoveChild this child w"
  using assms
  by (auto simp: appendChildOrInsertBefore_def removeChild_def isHijackingTag_iff Let_def)

theorem patched_operations_pass_through_witness:
  "appendChildOrInsertBefore example_platform example_opts 1 5 None example_world
     = native_insertBefore 1 5 None example_world
   \<and> fst (appendChildOrInsertBefore example_platform example_opts 1 5 None example_world) = Inr 5
   \<and> dom_children (document (snd
         (appendChildOrInsertBefore example_platform example_opts 1 5 None example_world))) 1
       = [8, 10, 5]
   \<and> isInvokedByMicroApp example_opts 9 example_world = Inr False
   \<and> fst (appendChildOrInsertBefore example_platform example_opts 1 9 None example_world) = Inr 9
   \<and> dom_children (document (snd
         (appendChildOrInsertBefore example_platform example_opts 1 9 None example_world))) 1
       = [8, 10, 9]
   \<and> fst (removeChild example_platform native_removeChild (getSandboxConfig example_opts) Head
         (isInvokedByMicroApp example_opts) 1 8 example_world) = Inr 8
   \<and> dom_children (document (snd
         (removeChild example_platform native_removeChild (getSandboxConfig example_opts) Head
         (isInvokedByMicroApp example_opts) 1 8 example_world))) 1 = [10]"
  using patched_operations_pass_through
      [where w = example_world and child = 5 and opts = example_opts
        and env = example_platform and this = 1 and refChild = None]
    patched_operations_pass_through
      [where w = example_world and child = 9 and opts = example_opts
        and env = example_platform and this = 1 and refChild = None]
    patched_operations_pass_through
      [where w = example_world and child = 8 and opts = example_opts
        and env = example_platform and this = 1 and rawRemoveChild = native_removeChild
        and containerConfigGetter = "getSandboxConfig example_opts" and tgt = Head]
  by (simp add: example_defs tag_examples)









text \<open>
  Claim C8, as the code has it. For a hijacked node owned by a micro-app, with
  \<open>attached\<close> the attached artifact and \<open>wr\<close> the state after the registry update:
  an error thrown by the configuration getter, by \<^verbatim>\<open>getContainer\<close>, or by the
  removal of the artifact from its actual parent (also the \<^verbatim>\<open>TypeError\<close> of an
  artifact without a parent) is caught and written to the console, after which the
  original remove is called on the original target with the original child; when the
  container does not contain the artifact the original remove is called on the original
  target at once; when the removal from the actual parent succeeds its result is
  returned. The only exception that reaches the caller is one thrown by the call of the
  original remove on the original target.
\<close>

theorem removeChild_catches_then_falls_back:
  assumes "isHijackingTag (tagName w child)"
    and "isInvokedByMicroApp' child w = Inr True"
    and "attached =
           (if tagName w child = Some STYLE_TAG_NAME \<or> tagName w child = Some LINK_TAG_NAME
            then (case dynamicLinkAttachedInlineStyleMap w child of Some a \<Rightarrow> a | None \<Rightarrow> child)
            else if tagName w child = Some SCRIPT_TAG_NAME
            then (case dynamicScriptAttachedCommentMap w child of Some a \<Rightarrow> a | None \<Rightarrow> child)
            else child)"
    and "wr =
           (if tagName w child = Some STYLE_TAG_NAME \<or> tagName w child = Some LINK_TAG_NAME
            then (case indexOf (arrays w (dynamicStyleSheetElements cfg)) attached of
                    Some i \<Rightarrow>
                      w\<lparr>arrays := (arrays w)
                          (dynamicStyleSheetElements cfg :=
                             splice1 i (arrays w (dynamicStyleSheetElements cfg)))\<rparr>
                  | None \<Rightarrow> w)
            else w)"
  shows "(\<forall>e. containerConfigGetter child w = Inl e \<longrightarrow>
            removeChild env rawRemoveChild containerConfigGetter tgt isInvokedByMicroApp'
              this child w
              = rawRemoveChild this child (w\<lparr>console := console w @ [e]\<rparr>))
       \<and> (containerConfigGetter child w = Inr cfg \<longrightarrow>
           (\<forall>e. getContainer cfg wr = Inl e \<longrightarrow>
              removeChild env rawRemoveChild containerConfigGetter tgt isInvokedByMicroApp'
                this child w
                = rawRemoveChild this child (wr\<lparr>console := console wr @ [e]\<rparr>))
         \<and> (\<forall>container. getContainer cfg wr = Inr container \<longrightarrow>
              (\<not> contains env (document wr) container (Some attached) \<longrightarrow>
                 removeChild env rawRemoveChild containerConfigGetter tgt isInvokedByMicroApp'
                   this child w = rawRemoveChild this child wr)
            \<and> (contains env (document wr) container (Some attached) \<longrightarrow>
                 (parentNode env (document wr) attached = None \<longrightarrow>
                    removeChild env rawRemoveChild containerConfigGetter tgt isInvokedByMicroApp'
                      this child w
                      = rawRemoveChild this child (wr\<lparr>console := console wr @ [TypeError]\<rparr>))
               \<and> (\<forall>parent. parentNode env (document wr) attached = Some parent \<longrightarrow>
                    (\<forall>e w2. rawRemoveChild parent attached wr = (Inl e, w2) \<longrightarrow>
                       removeChild env rawRemoveChild containerConfigGetter tgt
                         isInvokedByMicroApp' this child w
                         = rawRemoveChild this child (w2\<lparr>console := console w2 @ [e]\<rparr>))
                  \<and> (\<forall>removed w2. rawRemoveChild parent attached wr = (Inr removed, w2) \<longrightarrow>
                       removeChild env rawRemoveChild containerConfigGetter tgt
                         isInvokedByMicroApp' this child w = (Inr removed, w2))))))
       \<and> (\<forall>e w'. removeChild env rawRemoveChild containerConfigGetter tgt isInvokedByMicroApp'
              this child w = (Inl e, w') \<longrightarrow>
            (\<exists>w0. rawRemoveChild this child w0 = (Inl e, w')))"
proof -
  have resolve:
    "(if tagName w child = Some STYLE_TAG_NAME \<or> tagName w child = Some LINK_TAG_NAME
      then
        (let attached =
               (case dynamicLinkAttachedInlineStyleMap w child of
                  Some a \<Rightarrow> a | None \<Rightarrow> child)
         in case indexOf (arrays w (dynamicStyleSheetElements cfg)) attached of
              Some dynamicElementIndex \<Rightarrow>
                (attached,
                 w\<lparr>arrays := (arrays w)
                     (dynamicStyleSheetElements cfg :=
                        splice1 dynamicElementIndex (arrays w (dynamicStyleSheetElements cfg)))\<rparr>)
            | None \<Rightarrow> (attached, w))
      else if tagName w child = Some SCRIPT_TAG_NAME then
        ((case dynamicScriptAttachedCommentMap w child of
            Some a \<Rightarrow> a | None \<Rightarrow> child), w)
      else (child, w)) = (attached, wr)"
    unfolding assms(3,4) by (simp add: Let_def split: option.splits)
  have try_cfg: "removeChild_try env rawRemoveChild containerConfigGetter child w =
      (case getContainer cfg wr of
         Inl e \<Rightarrow> (Threw e, wr)
       | Inr container \<Rightarrow>
           if contains env (document wr) container (Some attached) then
             (case parentNode env (document wr) attached of
                None \<Rightarrow> (Threw TypeError, wr)
              | Some parent \<Rightarrow>
                  (case rawRemoveChild parent attached wr of
                     (Inl e, w2) \<Rightarrow> (Threw e, w2)
                   | (Inr removed, w2) \<Rightarrow> (Returned removed, w2)))
           else (Completed, wr))"
    if "containerConfigGetter child w = Inr cfg"
    unfolding removeChild_try_def using that by (simp add: Let_def resolve)
  have outer: "removeChild env rawRemoveChild containerConfigGetter tgt isInvokedByMicroApp'
                 this child w =
      (case removeChild_try env rawRemoveChild containerConfigGetter child w of
         (Returned removed, wt) \<Rightarrow> (Inr removed, wt)
       | (Threw e, wt) \<Rightarrow> rawRemoveChild this child (wt\<lparr>console := console wt @ [e]\<rparr>)
       | (Completed, wt) \<Rightarrow> rawRemoveChild this child wt)"
    using assms(1,2) by (simp add: removeChild_def)
  show ?thesis
  proof (intro conjI allI impI)
    fix e assume "containerConfigGetter child w = Inl e"
    then show "removeChild env rawRemoveChild containerConfigGetter tgt isInvokedByMicroApp'
                 this child w
                = rawRemoveChild this child (w\<lparr>console := console w @ [e]\<rparr>)"
      by (simp add: outer removeChild_try_def)
  next
    fix e w'
    assume r: "removeChild env rawRemoveChild containerConfigGetter tgt isInvokedByMicroApp'
                 this child w = (Inl e, w')"
    obtain t w0 where
      t: "removeChild_try env rawRemoveChild containerConfigGetter child w = (t, w0)"
      by (cases "removeChild_try env rawRemoveChild containerConfigGetter child w")
    show "\<exists>w0. rawRemoveChild this child w0 = (Inl e, w')"
      using r t by (cases t) (auto simp: outer)
  qed (simp_all add: outer try_cfg)
qed

theorem removeChild_catches_then_falls_back_witness:
  "fst (removeChild example_platform native_removeChild example_getSandboxConfig_gone Head
        example_isInvokedByMicroApp 1 10 example_world) = Inr 10
   \<and> console (snd (removeChild example_platform native_removeChild
        example_getSandboxConfig_gone Head example_isInvokedByMicroApp 1 10 example_world))
      = [Thrown ''no sandbox config for the element'']
   \<and> dom_children (document (snd (removeChild example_platform native_removeChild
        example_getSandboxConfig_gone Head example_isInvokedByMicroApp 1 10 example_world))) 1
      = [8]
   \<and> fst (removeChild example_platform native_removeChild
        (\<lambda>n w. Inr example_config_no_container) Head example_isInvokedByMicroApp 1 10
        example_world) = Inr 10
   \<and> console (snd (removeChild example_platform native_removeChild
        (\<lambda>n w. Inr example_config_no_container) Head example_isInvokedByMicroApp 1 10
        example_world)) = [Thrown ''the container is gone'']
   \<and> removeChild example_platform example_guarded_removeChild
        (\<lambda>n w. Inr example_config) Head example_isInvokedByMicroApp 1 7 example_world
      = (Inl NotFoundError,
         example_world\<lparr>arrays := (arrays example_world)(0 := []),
                        console := [Thrown ''node 3 is protected'']\<rparr>)
   \<and> fst (removeChild example_platform native_removeChild
        (\<lambda>n w. Inr example_config) Head example_isInvokedByMicroApp 1 7 example_world) = Inr 7
   \<and> dom_children (document (snd (removeChild example_platform native_removeChild
        (\<lambda>n w. Inr example_config) Head example_isInvokedByMicroApp 1 7 example_world))) 3
      = [6]
   \<and> arrays (snd (removeChild example_platform native_removeChild
        (\<lambda>n w. Inr example_config) Head example_isInvokedByMicroApp 1 7 example_world)) 0 = []"
  using removeChild_catches_then_falls_back
      [where w = example_world and child = 10 and attached = 10 and wr = example_world
        and isInvokedByMicroApp' = example_isInvokedByMicroApp
        and containerConfigGetter = example_getSandboxConfig_gone
        and env = example_platform and rawRemoveChild = native_removeChild and tgt = Head
        and this = 1 and cfg = example_config]
    removeChild_catches_then_falls_back
      [where w = example_world and child = 10 and attached = 10 and wr = example_world
        and isInvokedByMicroApp' = example_isInvokedByMicroApp
        and containerConfigGetter = "\<lambda>n w. Inr example_config_no_container"
        and env = example_platform and rawRemoveChild = native_removeChild and tgt = Head
        and this = 1 and cfg = example_config_no_container]
    removeChild_catches_then_falls_back
      [where w = example_world and child = 7 and attached = 7
        and wr = "example_world\<lparr>arrays := (arrays example_world)(0 := [])\<rparr>"
        and isInvokedByMicroApp' = example_isInvokedByMicroApp
        and containerConfigGetter = "\<lambda>n w. Inr example_config"
        and env = example_platform and rawRemoveChild = example_guarded_removeChild
        and tgt = Head and this = 1 and cfg = example_config]
    removeChild_catches_then_falls_back
      [where w = example_world and child = 7 and attached = 7
        and wr = "example_world\<lparr>arrays := (arrays example_world)(0 := [])\<rparr>"
        and isInvokedByMicroApp' = example_isInvokedByMicroApp
        and containerConfigGetter = "\<lambda>n w. Inr example_config"
        and env = example_platform and rawRemoveChild = native_removeChild
        and tgt = Head and this = 1 and cfg = example_config]
  by (simp add: example_defs example_getSandboxConfig_gone_def example_config_no_container_def
      example_guarded_removeChild_def isHijackingTag_examples STYLE_TAG_NAME_def
      LINK_TAG_NAME_def splice1_def)

text \<open>
  The claim as stated fails: the delegated call that ends the function stands outside the
  \<^verbatim>\<open>try\<close>. Style element 7 of the micro-app was redirected into the container; the
  app's configuration is gone when the app calls \<^verbatim>\<open>removeChild\<close> on the head. The
  error of the getter is caught and logged, and the original \<^verbatim>\<open>removeChild\<close> is
  then called on the head, of which the element is no child: its \<^verbatim>\<open>NotFoundError\<close>
  reaches the caller.
\<close>

theorem removeChild_fallback_throws_counterexample:
  "isHijackingTag (tagName example_world 7)
   \<and> example_isInvokedByMicroApp 7 example_world = Inr True
   \<and> removeChild example_platform native_removeChild example_getSandboxConfig_gone Head
        example_isInvokedByMicroApp 1 7 example_world
      = (Inl NotFoundError,
         example_world\<lparr>console := [Thrown ''no sandbox config for the element'']\<rparr>)"
  by (simp add: removeChild_def removeChild_try_def example_defs
      example_getSandboxConfig_gone_def isHijackingTag_examples)

section \<open>Properties of the installer\<close>

text \<open>The first call on unpatched prototypes installs one closure over each of the
  five functions it found, and its \<^verbatim>\<open>unpatch\<close> puts those five back.\<close>

lemma patch_unpatched:
  assumes "unpatched P"
  shows "snd (patchHTMLDynamicAppendPrototypeFunctions oracles P) =
      \<lparr>HTMLHeadElement_appendChild =
         AppendChildOrInsertBefore (HTMLHeadElement_appendChild P) oracles Head,
       HTMLHeadElement_insertBefore =
         AppendChildOrInsertBefore (HTMLHeadElement_insertBefore P) oracles Head,
       HTMLHeadElement_removeChild = RemoveChild (HTMLHeadElement_removeChild P) oracles Head,
       HTMLBodyElement_appendChild =
         AppendChildOrInsertBefore (HTMLBodyElement_appendChild P) oracles Body,
       HTMLBodyElement_removeChild = RemoveChild (HTMLBodyElement_removeChild P) oracles Body\<rparr>"
    and "unpatch (fst (patchHTMLDynamicAppendPrototypeFunctions oracles P)) Q = P"
  using assms
  by (simp_all add: patchHTMLDynamicAppendPrototypeFunctions_def unpatch_def unpatched_def
      Let_def getOverwrittenAppendChildOrInsertBefore_def getNewRemoveChild_def)

text \<open>A call that finds the marker installs nothing, and the \<^verbatim>\<open>unpatch\<close> it returns
  puts back what that call found: the closures that are already installed.\<close>

lemma patch_patched:
  assumes "overwritten (HTMLHeadElement_appendChild P)"
    and "overwritten (HTMLHeadElement_removeChild P)"
  shows "snd (patchHTMLDynamicAppendPrototypeFunctions oracles P) = P"
    and "unpatch (fst (patchHTMLDynamicAppendPrototypeFunctions oracles P)) P = P"
  using assms
  by (simp_all add: patchHTMLDynamicAppendPrototypeFunctions_def unpatch_def Let_def)

text \<open>
  Claim C2, on the prototypes of an unpatched page. The second call of the installer
  changes nothing, so one layer of interception is installed, and the \<^verbatim>\<open>unpatch\<close>
  returned by the first call restores the browser's functions. The \<^verbatim>\<open>unpatch\<close>
  returned by the second call does not: the constants it restores were read while the
  closures of the first call were installed, so after it the prototypes still hold those
  closures.
\<close>

theorem second_unpatch_keeps_interception:
  "snd (patchHTMLDynamicAppendPrototypeFunctions o2
        (snd (patchHTMLDynamicAppendPrototypeFunctions o1 browser_prototypes)))
     = snd (patchHTMLDynamicAppendPrototypeFunctions o1 browser_prototypes)
   \<and> interception_layers (HTMLHeadElement_appendChild
        (snd (patchHTMLDynamicAppendPrototypeFunctions o2
          (snd (patchHTMLDynamicAppendPrototypeFunctions o1 browser_prototypes))))) = 1
   \<and> unpatch (fst (patchHTMLDynamicAppendPrototypeFunctions o1 browser_prototypes))
        (snd (patchHTMLDynamicAppendPrototypeFunctions o2
          (snd (patchHTMLDynamicAppendPrototypeFunctions o1 browser_prototypes))))
      = browser_prototypes
   \<and> unpatch (fst (patchHTMLDynamicAppendPrototypeFunctions o2
          (snd (patchHTMLDynamicAppendPrototypeFunctions o1 browser_prototypes))))
        (snd (patchHTMLDynamicAppendPrototypeFunctions o2
          (snd (patchHTMLDynamicAppendPrototypeFunctions o1 browser_prototypes))))
      = snd (patchHTMLDynamicAppendPrototypeFunctions o1 browser_prototypes)
   \<and> HTMLHeadElement_appendChild (unpatch (fst (patchHTMLDynamicAppendPrototypeFunctions o2
          (snd (patchHTMLDynamicAppendPrototypeFunctions o1 browser_prototypes))))
        (snd (patchHTMLDynamicAppendPrototypeFunctions o2
          (snd (patchHTMLDynamicAppendPrototypeFunctions o1 browser_prototypes)))))
      = AppendChildOrInsertBefore (Original ''Node.prototype.appendChild'') o1 Head"
  by (simp add: patchHTMLDynamicAppendPrototypeFunctions_def unpatch_def Let_def
      browser_prototypes_def getOverwrittenAppendChildOrInsertBefore_def getNewRemoveChild_def)

end
